theory Spec2Isabelle
  imports Main "HOL-Library.Log_Nat" "HOL-Library.Multiset"
begin

section \<open>JavaScript numbers\<close>

text \<open>
  Every \<^verbatim>\<open>number\<close> of the program is an IEEE 754 binary64 value. A finite value is
  kept as the rational it denotes (the two signed zeros are identified: addition,
  multiplication and division by the constant 100, the only operations of the invoice
  arithmetic, never turn the sign of a zero into anything but the sign of a zero); the
  infinities and NaN are values of their own, because \<^verbatim>\<open>JSON.parse\<close> and overflow
  both produce them.
\<close>

datatype number = Finite rat | PInf | NInf | NaN

text \<open>\<open>floor_log2 q\<close> is the binary exponent of a positive rational: \<open>2^e \<le> q < 2^(e+1)\<close>.\<close>

definition floor_log2 :: "rat \<Rightarrow> int" where
  "floor_log2 q =
     (let (p, d) = quotient_of q; k = bitlen p - bitlen d
      in if 2 powi k \<le> q then k else k - 1)"

definition round_half_even :: "rat \<Rightarrow> int" where
  "round_half_even m =
     (let n = \<lfloor>m\<rfloor>; f = m - of_int n
      in if f < 1 / 2 then n
         else if 1 / 2 < f then n + 1
         else if even n then n else n + 1)"

text \<open>
  Rounding to nearest, ties to even, with 53 significant bits, gradual underflow below
  \<open>2^-1022\<close> and overflow to infinity from \<open>2^1024\<close> on.
\<close>

definition round64 :: "rat \<Rightarrow> number" where
  "round64 q =
     (if q = 0 then Finite 0
      else let a = \<bar>q\<bar>;
               k = max (floor_log2 a) (- 1022) - 52;
               r = of_int (round_half_even (a / 2 powi k)) * 2 powi k
           in if 2 powi 1024 \<le> r then (if 0 < q then PInf else NInf)
              else Finite (if 0 < q then r else - r))"

text \<open>The finite values of the format: at most 53 bits of mantissa on an exponent in range.\<close>

definition representable :: "rat \<Rightarrow> bool" where
  "representable q \<longleftrightarrow>
     (\<exists>n k. q = of_int n * 2 powi k \<and> \<bar>n\<bar> \<le> 2 ^ 53 \<and> - 1074 \<le> k) \<and> \<bar>q\<bar> < 2 powi 1024"

fun fadd :: "number \<Rightarrow> number \<Rightarrow> number" where
  "fadd NaN _ = NaN"
| "fadd _ NaN = NaN"
| "fadd PInf NInf = NaN"
| "fadd NInf PInf = NaN"
| "fadd PInf _ = PInf"
| "fadd _ PInf = PInf"
| "fadd NInf _ = NInf"
| "fadd _ NInf = NInf"
| "fadd (Finite a) (Finite b) = round64 (a + b)"

fun fmul :: "number \<Rightarrow> number \<Rightarrow> number" where
  "fmul NaN _ = NaN"
| "fmul _ NaN = NaN"
| "fmul (Finite a) (Finite b) = round64 (a * b)"
| "fmul (Finite a) PInf = (if a = 0 then NaN else if 0 < a then PInf else NInf)"
| "fmul (Finite a) NInf = (if a = 0 then NaN else if 0 < a then NInf else PInf)"
| "fmul PInf (Finite b) = (if b = 0 then NaN else if 0 < b then PInf else NInf)"
| "fmul NInf (Finite b) = (if b = 0 then NaN else if 0 < b then NInf else PInf)"
| "fmul PInf PInf = PInf"
| "fmul NInf NInf = PInf"
| "fmul PInf NInf = NInf"
| "fmul NInf PInf = NInf"

text \<open>The source divides by the literal 100 only: \<^verbatim>\<open>invoice.taxRate / 100\<close>.\<close>

fun fdiv100 :: "number \<Rightarrow> number" where
  "fdiv100 (Finite a) = round64 (a / 100)"
| "fdiv100 PInf = PInf"
| "fdiv100 NInf = NInf"
| "fdiv100 NaN = NaN"

text \<open>A number is falsy in a condition when it is zero or NaN.\<close>

fun truthy_number :: "number \<Rightarrow> bool" where
  "truthy_number (Finite a) = (a \<noteq> 0)"
| "truthy_number NaN = False"
| "truthy_number _ = True"

section \<open>The invoice model\<close>

text \<open>
  \<^verbatim>\<open>lib/db/models/Invoice.ts\<close> (and its JavaScript twin
  \<^verbatim>\<open>server/src/models/Invoice.js\<close>, which declares the same attributes and the same
  two hooks). A date is a calendar date written \<^verbatim>\<open>YYYY-MM-DD\<close>, the form in
  which the \<^verbatim>\<open>DATEONLY\<close> column keeps it; \<open>createdAt\<close> is a clock reading;
  \<open>updatedAt\<close> is not used by any code below and is left out.

  The \<open>items\<close> are kept in a \<^verbatim>\<open>JSONB\<close> column. JSON has no notation for the
  infinities and NaN: \<^verbatim>\<open>JSON.stringify\<close> writes \<^verbatim>\<open>null\<close> for them. The
  \<open>quantity\<close> and the \<open>unitPrice\<close> of an item are therefore a number or
  \<^verbatim>\<open>null\<close> (\<open>None\<close>), and arithmetic reads \<^verbatim>\<open>null\<close> as zero.
\<close>

record address =
  name :: string
  address :: string
  city :: string
  postalCode :: string
  country :: string

record item =
  id_item :: string
  description :: string
  quantity :: "number option"
  unitPrice :: "number option"

text \<open>The number an arithmetic operator makes of its operand: \<^verbatim>\<open>null\<close> becomes zero.\<close>

fun to_number :: "number option \<Rightarrow> number" where
  "to_number None = Finite 0"
| "to_number (Some x) = x"

record invoice =
  id_inv :: string
  invoiceNumber :: "string option"
  invoiceDate :: string
  dueDate :: "string option"
  logoUrl :: "string option"
  sender :: address
  recipient :: address
  items :: "item list"
  currency :: string
  taxRate :: number
  subtotal :: number
  total :: number
  UserId :: string
  createdAt :: nat

text \<open>
  A model instance: its \<^verbatim>\<open>dataValues\<close> and the set of attribute names that
  \<^verbatim>\<open>changed(key)\<close> reports.
\<close>

record "instance" =
  dataValues :: invoice
  changed :: "string set"

text \<open>
  Assigning an attribute of an instance (\<^verbatim>\<open>invoice.subtotal = subtotal\<close>, or one
  key of \<^verbatim>\<open>set(values)\<close>): the ORM stores the value and marks the key as changed
  when the value differs from the one held before; a key whose value is
  \<^verbatim>\<open>undefined\<close> is skipped.
\<close>

definition set_key ::
  "string \<Rightarrow> (invoice \<Rightarrow> 'a) \<Rightarrow> ('a \<Rightarrow> invoice \<Rightarrow> invoice) \<Rightarrow> 'a option \<Rightarrow> instance \<Rightarrow> instance" where
  "set_key key get put v ins =
     (case v of
        None \<Rightarrow> ins
      | Some x \<Rightarrow>
          \<lparr>dataValues = put x (dataValues ins),
           changed = (if x = get (dataValues ins) then changed ins
                      else insert key (changed ins))\<rparr>)"

text \<open>The hooks of the model, \<^verbatim>\<open>Invoice.ts\<close> lines 134 to 157.\<close>

definition beforeCreate :: "instance \<Rightarrow> instance" where
  "beforeCreate invoice =
     (let subtotal' = foldl (\<lambda>sum item. fadd sum (fmul (to_number (quantity item))
                                                      (to_number (unitPrice item))))
                        (Finite 0) (items (dataValues invoice));
          taxAmount = fmul subtotal' (fdiv100 (taxRate (dataValues invoice)));
          invoice1 = set_key ''subtotal'' subtotal (\<lambda>x r. r\<lparr>subtotal := x\<rparr>)
                       (Some subtotal') invoice
      in set_key ''total'' total (\<lambda>x r. r\<lparr>total := x\<rparr>)
           (Some (fadd subtotal' taxAmount)) invoice1)"

definition beforeUpdate :: "instance \<Rightarrow> instance" where
  "beforeUpdate invoice =
     (if ''items'' \<in> changed invoice \<or> ''taxRate'' \<in> changed invoice then
        (let subtotal' = foldl (\<lambda>sum item. fadd sum (fmul (to_number (quantity item))
                                                         (to_number (unitPrice item))))
                           (Finite 0) (items (dataValues invoice));
             taxAmount = fmul subtotal' (fdiv100 (taxRate (dataValues invoice)));
             invoice1 = set_key ''subtotal'' subtotal (\<lambda>x r. r\<lparr>subtotal := x\<rparr>)
                          (Some subtotal') invoice
         in set_key ''total'' total (\<lambda>x r. r\<lparr>total := x\<rparr>)
              (Some (fadd subtotal' taxAmount)) invoice1)
      else invoice)"

section \<open>The storage collaborator\<close>

text \<open>
  The handlers reach the table of invoices through the ORM. The table is a list of rows
  with \<open>id_inv\<close> as primary key. What the ORM calls do is taken from their documented
  contract: \<^verbatim>\<open>create\<close> builds an instance from the defaults of the model and the
  values given, runs \<^verbatim>\<open>beforeCreate\<close> and inserts the row; \<^verbatim>\<open>update\<close> assigns the
  values given, runs \<^verbatim>\<open>beforeUpdate\<close> and writes the instance back to the row with
  its primary key; \<^verbatim>\<open>findOne\<close> returns the first row matching the \<^verbatim>\<open>where\<close>
  clause; \<^verbatim>\<open>destroy\<close> deletes the row with the primary key of the instance.
  The identifier a new row gets by default, the current date and the clock are inputs.

  The columns \<open>id\<close> and \<open>UserId\<close> have the type \<^verbatim>\<open>UUID\<close>. A row holds an
  identifier in the form in which PostgreSQL prints it; a string that reaches the
  database as an identifier is read by the input syntax of that type, and a string
  outside that syntax makes the query fail. The \<open>items\<close> of a row are what the
  \<^verbatim>\<open>JSONB\<close> column makes of them. The database is taken to be reachable, and the
  values written to the other columns to be values these columns accept (a date in the
  form above, a \<open>UserId\<close> that is the identifier of a user, strings within the width
  of their columns): the exceptions modelled are a missing \<open>UserId\<close> and a
  duplicate primary key on \<^verbatim>\<open>create\<close>, an identifier outside the syntax, and a
  \<^verbatim>\<open>LIMIT\<close> or \<^verbatim>\<open>OFFSET\<close> that the database rejects.
\<close>

type_synonym store = "invoice list"

text \<open>
  The input syntax of the type \<^verbatim>\<open>UUID\<close> (\<^verbatim>\<open>string_to_uuid\<close> of PostgreSQL):
  sixteen bytes of two hexadecimal digits each, in upper or lower case, optionally
  enclosed in braces, with an optional hyphen after any group of four digits but the
  last. \<open>uuid_canon\<close> returns the form in which the value is printed and stored:
  lower case, hyphens after the digits 8, 12, 16 and 20.
\<close>

definition is_xdigit :: "char \<Rightarrow> bool" where
  "is_xdigit c \<longleftrightarrow> c \<in> set ''0123456789abcdefABCDEF''"

definition lower_xdigit :: "char \<Rightarrow> char" where
  "lower_xdigit c =
     (case map_of (zip ''ABCDEF'' ''abcdef'') c of None \<Rightarrow> c | Some d \<Rightarrow> d)"

fun uuid_digits :: "nat list \<Rightarrow> string \<Rightarrow> (string \<times> string) option" where
  "uuid_digits [] src = Some ([], src)"
| "uuid_digits (i # is) (a # b # src) =
     (if is_xdigit a \<and> is_xdigit b then
        (case uuid_digits is
                (case src of
                   [] \<Rightarrow> src
                 | c # rest \<Rightarrow> if c = CHR ''-'' \<and> odd i \<and> i < 15 then rest else src) of
           None \<Rightarrow> None
         | Some (ds, rest) \<Rightarrow> Some (lower_xdigit a # lower_xdigit b # ds, rest))
      else None)"
| "uuid_digits (i # is) src = None"

definition uuid_canon :: "string \<Rightarrow> string option" where
  "uuid_canon source =
     (let (src, braces) =
            (case source of
               [] \<Rightarrow> (source, False)
             | c # rest \<Rightarrow> if c = CHR ''{'' then (rest, True) else (source, False))
      in case uuid_digits [0..<16] src of
           None \<Rightarrow> None
         | Some (ds, rest) \<Rightarrow>
             if rest = (if braces then ''}'' else []) then
               Some (take 8 ds @ ''-'' @ take 4 (drop 8 ds) @ ''-'' @ take 4 (drop 12 ds) @
                     ''-'' @ take 4 (drop 16 ds) @ ''-'' @ drop 20 ds)
             else None)"

text \<open>
  What the \<^verbatim>\<open>JSONB\<close> column keeps of the items of a row: a finite number and
  \<^verbatim>\<open>null\<close> as they are, \<^verbatim>\<open>null\<close> for an infinity or NaN.
\<close>

fun jsonb_number :: "number option \<Rightarrow> number option" where
  "jsonb_number (Some (Finite a)) = Some (Finite a)"
| "jsonb_number _ = None"

definition jsonb_item :: "item \<Rightarrow> item" where
  "jsonb_item it = it\<lparr>quantity := jsonb_number (quantity it),
                      unitPrice := jsonb_number (unitPrice it)\<rparr>"

definition jsonb_row :: "invoice \<Rightarrow> invoice" where
  "jsonb_row row = row\<lparr>items := map jsonb_item (items row)\<rparr>"

text \<open>
  The values handed to \<^verbatim>\<open>create\<close> and \<^verbatim>\<open>update\<close>; \<open>None\<close> is a key that is
  absent. Every value present has the type that \<^verbatim>\<open>InvoiceAttributes\<close> declares.
\<close>

record attrs =
  a_id :: "string option"
  a_invoiceNumber :: "string option"
  a_invoiceDate :: "string option"
  a_dueDate :: "string option"
  a_logoUrl :: "string option"
  a_sender :: "address option"
  a_recipient :: "address option"
  a_items :: "item list option"
  a_currency :: "string option"
  a_taxRate :: "number option"
  a_subtotal :: "number option"
  a_total :: "number option"
  a_UserId :: "string option"

record env =
  fresh_id :: string
  today :: string
  now :: nat

datatype db_error =
    NotNullViolation
  | UniqueConstraintError
  | InvalidUUID string
  | BigintOutOfRange
  | NegativeOffset
  | NegativeLimit

fun error_message :: "db_error \<Rightarrow> string" where
  "error_message NotNullViolation = ''notNull Violation: Invoice.UserId cannot be null''"
| "error_message UniqueConstraintError = ''Validation error''"
| "error_message (InvalidUUID s) =
     ''invalid input syntax for type uuid: '' @ [CHR 0x22] @ s @ [CHR 0x22]"
| "error_message BigintOutOfRange = ''bigint out of range''"
| "error_message NegativeOffset = ''OFFSET must not be negative''"
| "error_message NegativeLimit = ''LIMIT must not be negative''"

text \<open>
  \<^verbatim>\<open>set(values)\<close> on an instance that has its primary key: every key present is
  assigned, except the primary key itself.
\<close>

definition instance_set :: "instance \<Rightarrow> attrs \<Rightarrow> instance" where
  "instance_set ins a =
     (let i1 = set_key ''invoiceNumber'' invoiceNumber (\<lambda>x r. r\<lparr>invoiceNumber := x\<rparr>)
                 (map_option Some (a_invoiceNumber a)) ins;
          i2 = set_key ''invoiceDate'' invoiceDate (\<lambda>x r. r\<lparr>invoiceDate := x\<rparr>)
                 (a_invoiceDate a) i1;
          i3 = set_key ''dueDate'' dueDate (\<lambda>x r. r\<lparr>dueDate := x\<rparr>)
                 (map_option Some (a_dueDate a)) i2;
          i4 = set_key ''logoUrl'' logoUrl (\<lambda>x r. r\<lparr>logoUrl := x\<rparr>)
                 (map_option Some (a_logoUrl a)) i3;
          i5 = set_key ''sender'' sender (\<lambda>x r. r\<lparr>sender := x\<rparr>) (a_sender a) i4;
          i6 = set_key ''recipient'' recipient (\<lambda>x r. r\<lparr>recipient := x\<rparr>) (a_recipient a) i5;
          i7 = set_key ''items'' items (\<lambda>x r. r\<lparr>items := x\<rparr>) (a_items a) i6;
          i8 = set_key ''currency'' currency (\<lambda>x r. r\<lparr>currency := x\<rparr>) (a_currency a) i7;
          i9 = set_key ''taxRate'' taxRate (\<lambda>x r. r\<lparr>taxRate := x\<rparr>) (a_taxRate a) i8;
          i10 = set_key ''subtotal'' subtotal (\<lambda>x r. r\<lparr>subtotal := x\<rparr>) (a_subtotal a) i9;
          i11 = set_key ''total'' total (\<lambda>x r. r\<lparr>total := x\<rparr>) (a_total a) i10
      in set_key ''UserId'' UserId (\<lambda>x r. r\<lparr>UserId := x\<rparr>) (a_UserId a) i11)"

definition empty_address :: address where
  "empty_address = \<lparr>name = [], address = [], city = [], postalCode = [], country = []\<rparr>"

text \<open>\<^verbatim>\<open>build\<close>: the \<^verbatim>\<open>defaultValue\<close> of each attribute, then the values given.\<close>

definition Invoice_build :: "env \<Rightarrow> attrs \<Rightarrow> instance" where
  "Invoice_build e a =
     instance_set
       \<lparr>dataValues =
          \<lparr>id_inv = (case a_id a of Some i \<Rightarrow> i | None \<Rightarrow> fresh_id e),
           invoiceNumber = None, invoiceDate = today e, dueDate = None, logoUrl = None,
           sender = empty_address, recipient = empty_address, items = [],
           currency = ''USD'', taxRate = Finite 0, subtotal = Finite 0, total = Finite 0,
           UserId = [], createdAt = now e\<rparr>,
        changed = {}\<rparr> a"

text \<open>
  \<^verbatim>\<open>Invoice.create(values)\<close>. \<open>UserId\<close> has \<^verbatim>\<open>allowNull: false\<close> and no default,
  which the ORM checks before it runs the hook; the \<^verbatim>\<open>INSERT\<close> fails on an
  identifier outside the syntax and on a primary key the table holds already. The
  instance returned has the values of the row as the database returned them.
\<close>

definition Invoice_create :: "env \<Rightarrow> store \<Rightarrow> attrs \<Rightarrow> db_error + invoice \<times> store" where
  "Invoice_create e st a =
     (case a_UserId a of
        None \<Rightarrow> Inl NotNullViolation
      | Some u \<Rightarrow>
          (let built = dataValues (beforeCreate (Invoice_build e a))
           in case uuid_canon (id_inv built) of
                None \<Rightarrow> Inl (InvalidUUID (id_inv built))
              | Some c \<Rightarrow>
                  (let row = jsonb_row (built\<lparr>id_inv := c\<rparr>)
                   in if c \<in> set (map id_inv st) then Inl UniqueConstraintError
                      else Inr (row, st @ [row]))))"

text \<open>
  \<^verbatim>\<open>invoice.update(values)\<close> on an instance just read from the table: nothing is
  marked as changed before the values are assigned. The instance keeps the values it
  was given and the hook computed; the row gets what the columns make of them.
\<close>

definition instance_update :: "store \<Rightarrow> invoice \<Rightarrow> attrs \<Rightarrow> invoice \<times> store" where
  "instance_update st row a =
     (let row' = dataValues (beforeUpdate (instance_set \<lparr>dataValues = row, changed = {}\<rparr> a))
      in (row', map (\<lambda>r. if id_inv r = id_inv row then jsonb_row row' else r) st))"

definition instance_destroy :: "store \<Rightarrow> invoice \<Rightarrow> store" where
  "instance_destroy st row = filter (\<lambda>r. id_inv r \<noteq> id_inv row) st"

text \<open>
  \<^verbatim>\<open>findOne({where: {id, UserId}})\<close> and \<^verbatim>\<open>findByPk(id)\<close>. The identifier comes
  from the request and is read by the input syntax of the column; the \<open>UserId\<close> is
  the identifier of the authenticated user, as the table of users holds it.
\<close>

definition Invoice_findOne :: "store \<Rightarrow> string \<Rightarrow> string \<Rightarrow> db_error + invoice option" where
  "Invoice_findOne st i u =
     (case uuid_canon i of
        None \<Rightarrow> Inl (InvalidUUID i)
      | Some c \<Rightarrow> Inr (find (\<lambda>r. id_inv r = c \<and> UserId r = u) st))"

definition Invoice_findByPk :: "store \<Rightarrow> string \<Rightarrow> db_error + invoice option" where
  "Invoice_findByPk st i =
     (case uuid_canon i of
        None \<Rightarrow> Inl (InvalidUUID i)
      | Some c \<Rightarrow> Inr (find (\<lambda>r. id_inv r = c) st))"


section \<open>Responses\<close>

text \<open>
  A response is its status code and the object handed to \<^verbatim>\<open>res.json\<close>, with the
  values it has before they are written as JSON.
\<close>

datatype resp_data =
    NoData
  | NullData
  | InvoiceData invoice
  | InvoicesPage "invoice list" int int int int

record response =
  status :: nat
  success :: bool
  message :: "string option"
  data :: resp_data

section \<open>The Express controller\<close>

text \<open>
  The invoice controller of the Express server (\<^verbatim>\<open>invoiceController.js\<close>). It runs
  behind the \<^verbatim>\<open>protect\<close> and \<^verbatim>\<open>verifiedOnly\<close> middleware, so \<^verbatim>\<open>req.user.id\<close>
  is given; \<^verbatim>\<open>req.body\<close> goes to the ORM as it is. Each handler catches what the
  ORM throws and answers 500 with a message of its own.
\<close>

definition express_getInvoice :: "store \<Rightarrow> string \<Rightarrow> string \<Rightarrow> response \<times> store" where
  "express_getInvoice st params_id user_id =
     (case Invoice_findOne st params_id user_id of
        Inl err \<Rightarrow>
          (\<lparr>status = 500, success = False,
            message = Some ''Server error while fetching invoice'', data = NoData\<rparr>, st)
      | Inr None \<Rightarrow>
          (\<lparr>status = 404, success = False, message = Some ''Invoice not found'', data = NoData\<rparr>, st)
      | Inr (Some invoice) \<Rightarrow>
          (\<lparr>status = 200, success = True, message = None, data = InvoiceData invoice\<rparr>, st))"


definition express_updateInvoice :: "store \<Rightarrow> string \<Rightarrow> string \<Rightarrow> attrs \<Rightarrow> response \<times> store" where
  "express_updateInvoice st params_id user_id body =
     (case Invoice_findOne st params_id user_id of
        Inl err \<Rightarrow>
          (\<lparr>status = 500, success = False,
            message = Some ''Server error while updating invoice'', data = NoData\<rparr>, st)
      | Inr None \<Rightarrow>
          (\<lparr>status = 404, success = False, message = Some ''Invoice not found'', data = NoData\<rparr>, st)
      | Inr (Some invoice) \<Rightarrow>
          (let (updated, st') = instance_update st invoice body
           in case Invoice_findByPk st' params_id of
                Inl err \<Rightarrow>
                  (\<lparr>status = 500, success = False,
                    message = Some ''Server error while updating invoice'', data = NoData\<rparr>, st')
              | Inr None \<Rightarrow>
                  (\<lparr>status = 200, success = True, message = None, data = NullData\<rparr>, st')
              | Inr (Some r) \<Rightarrow>
                  (\<lparr>status = 200, success = True, message = None, data = InvoiceData r\<rparr>, st')))"

definition express_deleteInvoice :: "store \<Rightarrow> string \<Rightarrow> string \<Rightarrow> response \<times> store" where
  "express_deleteInvoice st params_id user_id =
     (case Invoice_findOne st params_id user_id of
        Inl err \<Rightarrow>
          (\<lparr>status = 500, success = False,
            message = Some ''Server error while deleting invoice'', data = NoData\<rparr>, st)
      | Inr None \<Rightarrow>
          (\<lparr>status = 404, success = False, message = Some ''Invoice not found'', data = NoData\<rparr>, st)
      | Inr (Some invoice) \<Rightarrow>
          (\<lparr>status = 200, success = True, message = Some ''Invoice deleted successfully'',
            data = NoData\<rparr>, instance_destroy st invoice))"

section \<open>The Next.js API routes\<close>

text \<open>
  \<^verbatim>\<open>pages/api/invoices/index.ts\<close> and \<^verbatim>\<open>pages/api/invoices/[id].ts\<close>, with the
  helpers of \<^verbatim>\<open>lib/api-utils.ts\<close>. A request carries its method, the outcome of
  \<^verbatim>\<open>authenticate\<close> (which checks the bearer token and reads the user), the query
  parameters the handlers read and the parsed body.
\<close>

datatype http_method = GET | POST | PUT | DELETE | OtherMethod

record user =
  u_id :: string
  emailVerified :: bool

datatype auth_result = NoToken | InvalidToken | UserNotFound | Authenticated user

text \<open>\<^verbatim>\<open>req.query.id\<close> is undefined, a string or an array of strings.\<close>

datatype query_value = QUndefined | QString string | QArray "string list"

text \<open>
  The \<^verbatim>\<open>items\<close> of a body: a falsy value (the key is absent, or \<^verbatim>\<open>null\<close>,
  \<^verbatim>\<open>false\<close>, zero, the empty string), a truthy value that is not an array, or an
  array of line items.
\<close>

datatype items_field = ItemsFalsy | ItemsNotArray | ItemsArray "item list"

record body =
  b_invoiceNumber :: "string option"
  b_invoiceDate :: "string option"
  b_dueDate :: "string option"
  b_logoUrl :: "string option"
  b_sender :: "address option"
  b_recipient :: "address option"
  b_items :: items_field
  b_currency :: "string option"
  b_taxRate :: "number option"
  b_subtotal :: "number option"
  b_total :: "number option"

record request =
  req_method :: http_method
  auth :: auth_result
  query_id :: query_value
  query_page :: "int option"
  query_limit :: "int option"
  req_body :: body

definition handleError :: "db_error \<Rightarrow> response" where
  "handleError err =
     \<lparr>status = 500, success = False,
      message = Some (if error_message err = [] then ''Server error'' else error_message err),
      data = NoData\<rparr>"

definition handleSuccess :: "resp_data \<Rightarrow> string \<Rightarrow> nat \<Rightarrow> response" where
  "handleSuccess d msg statusCode =
     \<lparr>status = statusCode, success = True, message = Some msg, data = d\<rparr>"

text \<open>The response \<^verbatim>\<open>authenticate\<close> has sent when it returns no user.\<close>

fun authenticate_response :: "auth_result \<Rightarrow> response" where
  "authenticate_response NoToken =
     \<lparr>status = 401, success = False, message = Some ''No token provided'', data = NoData\<rparr>"
| "authenticate_response UserNotFound =
     \<lparr>status = 401, success = False, message = Some ''User not found'', data = NoData\<rparr>"
| "authenticate_response _ =
     \<lparr>status = 401, success = False, message = Some ''Invalid token'', data = NoData\<rparr>"

text \<open>Truthiness of an optional string, and the three tests on \<^verbatim>\<open>items\<close>.\<close>

fun truthy_string :: "string option \<Rightarrow> bool" where
  "truthy_string None = False"
| "truthy_string (Some s) = (s \<noteq> [])"

fun truthy_items :: "items_field \<Rightarrow> bool" where
  "truthy_items ItemsFalsy = False"
| "truthy_items _ = True"

fun isArray :: "items_field \<Rightarrow> bool" where
  "isArray (ItemsArray _) = True"
| "isArray _ = False"

fun items_of :: "items_field \<Rightarrow> item list" where
  "items_of (ItemsArray its) = its"
| "items_of _ = []"

definition missing_required_fields :: "body \<Rightarrow> bool" where
  "missing_required_fields b \<longleftrightarrow>
     \<not> truthy_string (b_invoiceDate b) \<or> b_sender b = None \<or> b_recipient b = None \<or>
     \<not> truthy_items (b_items b) \<or> \<not> isArray (b_items b) \<or> length (items_of (b_items b)) = 0"

definition missing_fields_response :: response where
  "missing_fields_response =
     \<lparr>status = 400, success = False, message = Some ''Missing required fields'', data = NoData\<rparr>"

definition not_found_response :: response where
  "not_found_response =
     \<lparr>status = 404, success = False, message = Some ''Invoice not found'', data = NoData\<rparr>"

text \<open>
  \<^verbatim>\<open>index.ts\<close>: list and create. \<open>query_page\<close> and \<open>query_limit\<close> are the
  integers \<^verbatim>\<open>parseInt\<close> returned (\<open>None\<close> for NaN), taken small enough for the
  product to be exact. The database reads \<^verbatim>\<open>LIMIT\<close> and \<^verbatim>\<open>OFFSET\<close> as
  64-bit integers when it plans the query and rejects a negative one when it runs it,
  the offset first.
\<close>

definition next_getInvoices :: "store \<Rightarrow> string \<Rightarrow> int option \<Rightarrow> int option \<Rightarrow> response" where
  "next_getInvoices st userId qpage qlimit =
     (let page = (case qpage of None \<Rightarrow> 1 | Some p \<Rightarrow> if p = 0 then 1 else p);
          limit = (case qlimit of None \<Rightarrow> 10 | Some l \<Rightarrow> if l = 0 then 10 else l);
          offset = (page - 1) * limit
      in if 2 ^ 63 \<le> \<bar>limit\<bar> \<or> 2 ^ 63 \<le> \<bar>offset\<bar> then handleError BigintOutOfRange
         else if offset < 0 then handleError NegativeOffset
         else if limit < 0 then handleError NegativeLimit
         else
           (let mine = filter (\<lambda>r. UserId r = userId) st;
                count = int (length mine);
                invoices = take (nat limit) (drop (nat offset)
                             (sort_key (\<lambda>r. - int (createdAt r)) mine));
                totalPages = - ((- count) div limit)
            in handleSuccess (InvoicesPage invoices count page limit totalPages) ''Success'' 200))"

definition next_createInvoice :: "env \<Rightarrow> store \<Rightarrow> string \<Rightarrow> body \<Rightarrow> response \<times> store" where
  "next_createInvoice e st userId b =
     (if missing_required_fields b then (missing_fields_response, st)
      else
        (case Invoice_create e st
                \<lparr>a_id = None,
                 a_invoiceNumber = b_invoiceNumber b,
                 a_invoiceDate = b_invoiceDate b,
                 a_dueDate = b_dueDate b,
                 a_logoUrl = b_logoUrl b,
                 a_sender = b_sender b,
                 a_recipient = b_recipient b,
                 a_items = Some (items_of (b_items b)),
                 a_currency = Some (case b_currency b of
                                      None \<Rightarrow> ''USD''
                                    | Some c \<Rightarrow> if c = [] then ''USD'' else c),
                 a_taxRate = Some (case b_taxRate b of
                                     None \<Rightarrow> Finite 0
                                   | Some t \<Rightarrow> if truthy_number t then t else Finite 0),
                 a_subtotal = None,
                 a_total = None,
                 a_UserId = Some userId\<rparr> of
           Inl err \<Rightarrow> (handleError err, st)
         | Inr (invoice, st') \<Rightarrow>
             (handleSuccess (InvoiceData invoice) ''Invoice created successfully'' 201, st')))"

definition index_handler :: "env \<Rightarrow> store \<Rightarrow> request \<Rightarrow> response \<times> store" where
  "index_handler e st req =
     (case auth req of
        Authenticated u \<Rightarrow>
          (if \<not> emailVerified u then
             (\<lparr>status = 403, success = False, message = Some ''Email verification required'',
               data = NoData\<rparr>, st)
           else
             (case req_method req of
                GET \<Rightarrow> (next_getInvoices st (u_id u) (query_page req) (query_limit req), st)
              | POST \<Rightarrow> next_createInvoice e st (u_id u) (req_body req)
              | _ \<Rightarrow>
                  (\<lparr>status = 405, success = False, message = Some ''Method not allowed'',
                    data = NoData\<rparr>, st)))
      | failed \<Rightarrow> (authenticate_response failed, st))"

text \<open>\<^verbatim>\<open>[id].ts\<close>: read, update and delete one invoice.\<close>

definition next_getInvoice :: "store \<Rightarrow> string \<Rightarrow> string \<Rightarrow> response \<times> store" where
  "next_getInvoice st invoiceId userId =
     (case Invoice_findOne st invoiceId userId of
        Inl err \<Rightarrow> (handleError err, st)
      | Inr None \<Rightarrow> (not_found_response, st)
      | Inr (Some invoice) \<Rightarrow> (handleSuccess (InvoiceData invoice) ''Success'' 200, st))"

definition next_updateInvoice :: "store \<Rightarrow> string \<Rightarrow> string \<Rightarrow> body \<Rightarrow> response \<times> store" where
  "next_updateInvoice st invoiceId userId b =
     (case Invoice_findOne st invoiceId userId of
        Inl err \<Rightarrow> (handleError err, st)
      | Inr None \<Rightarrow> (not_found_response, st)
      | Inr (Some invoice) \<Rightarrow>
          (if missing_required_fields b then (missing_fields_response, st)
           else
             (let (updated, st') =
                    instance_update st invoice
                      \<lparr>a_id = None,
                       a_invoiceNumber = b_invoiceNumber b,
                       a_invoiceDate = b_invoiceDate b,
                       a_dueDate = b_dueDate b,
                       a_logoUrl = b_logoUrl b,
                       a_sender = b_sender b,
                       a_recipient = b_recipient b,
                       a_items = Some (items_of (b_items b)),
                       a_currency = b_currency b,
                       a_taxRate = b_taxRate b,
                       a_subtotal = None,
                       a_total = None,
                       a_UserId = None\<rparr>
              in (handleSuccess (InvoiceData updated) ''Invoice updated successfully'' 200, st'))))"

definition next_deleteInvoice :: "store \<Rightarrow> string \<Rightarrow> string \<Rightarrow> response \<times> store" where
  "next_deleteInvoice st invoiceId userId =
     (case Invoice_findOne st invoiceId userId of
        Inl err \<Rightarrow> (handleError err, st)
      | Inr None \<Rightarrow> (not_found_response, st)
      | Inr (Some invoice) \<Rightarrow>
          (handleSuccess NullData ''Invoice deleted successfully'' 200, instance_destroy st invoice))"

definition id_handler :: "store \<Rightarrow> request \<Rightarrow> response \<times> store" where
  "id_handler st req =
     (case auth req of
        Authenticated u \<Rightarrow>
          (if \<not> emailVerified u then
             (\<lparr>status = 403, success = False, message = Some ''Email verification required'',
               data = NoData\<rparr>, st)
           else
             (case query_id req of
                QString i \<Rightarrow>
                  (if i = [] then
                     (\<lparr>status = 400, success = False, message = Some ''Invoice ID is required'',
                       data = NoData\<rparr>, st)
                   else
                     (case req_method req of
                        GET \<Rightarrow> next_getInvoice st i (u_id u)
                      | PUT \<Rightarrow> next_updateInvoice st i (u_id u) (req_body req)
                      | DELETE \<Rightarrow> next_deleteInvoice st i (u_id u)
                      | _ \<Rightarrow>
                          (\<lparr>status = 405, success = False, message = Some ''Method not allowed'',
                            data = NoData\<rparr>, st)))
              | _ \<Rightarrow>
                  (\<lparr>status = 400, success = False, message = Some ''Invoice ID is required'',
                    data = NoData\<rparr>, st)))
      | failed \<Rightarrow> (authenticate_response failed, st))"

section \<open>The invariant of the specification\<close>

text \<open>
  The specification asks for \<open>subtotal = \<Sum> quantity * unitPrice\<close> over the items and
  \<open>total = subtotal + subtotal * (taxRate / 100)\<close>, in double precision arithmetic.
  These definitions follow its words: the products are added in the order of the
  sequence, starting from zero.
\<close>

definition line_total :: "item \<Rightarrow> number" where
  "line_total it = fmul (to_number (quantity it)) (to_number (unitPrice it))"

definition spec_subtotal :: "item list \<Rightarrow> number" where
  "spec_subtotal its = foldl fadd (Finite 0) (map line_total its)"

definition spec_total :: "number \<Rightarrow> number \<Rightarrow> number" where
  "spec_total s r = fadd s (fmul s (fdiv100 r))"


section \<open>Exact line totals\<close>

text \<open>
  The value a finite number denotes, the exact product of a line, and the item
  sequences on which the arithmetic of the hooks cannot round: integer quantities and
  unit prices whose absolute line totals add up to at most \<open>2^53\<close>.
\<close>

fun int_valued :: "number \<Rightarrow> bool" where
  "int_valued (Finite a) = (of_int \<lfloor>a\<rfloor> = a)"
| "int_valued _ = False"

fun value_of :: "number \<Rightarrow> rat" where
  "value_of (Finite a) = a"
| "value_of _ = 0"

definition exact_line :: "item \<Rightarrow> rat" where
  "exact_line it = value_of (to_number (quantity it)) * value_of (to_number (unitPrice it))"

definition small_integer_items :: "item list \<Rightarrow> bool" where
  "small_integer_items its \<longleftrightarrow>
     list_all (\<lambda>it. case_option False int_valued (quantity it) \<and>
                    case_option False int_valued (unitPrice it)) its \<and>
     sum_list (map (\<lambda>it. \<bar>exact_line it\<bar>) its) \<le> 2 ^ 53"

text \<open>
  The item sequences that the \<^verbatim>\<open>JSONB\<close> column keeps as they are: no quantity and
  no unit price is an infinity or NaN.
\<close>

fun json_number :: "number option \<Rightarrow> bool" where
  "json_number None = True"
| "json_number (Some (Finite a)) = True"
| "json_number _ = False"

definition json_items :: "item list \<Rightarrow> bool" where
  "json_items its \<longleftrightarrow> list_all (\<lambda>it. json_number (quantity it) \<and> json_number (unitPrice it)) its"

section \<open>Sample data\<close>

text \<open>
  An environment, two users, and the invoices, attribute sets, bodies and requests at
  which the theorems below are instantiated. \<open>invoice0\<close> is what creating
  \<open>attrs_create\<close> stores, \<open>invoice1\<close> what updating it with
  \<open>attrs_update\<close> stores.
\<close>

definition inv_1 :: string where
  "inv_1 = ''00000000-0000-4000-8000-000000000001''"

definition inv_9 :: string where
  "inv_9 = ''00000000-0000-4000-8000-000000000009''"

definition user_1 :: string where
  "user_1 = ''00000000-0000-4000-8000-0000000000a1''"

definition user_2 :: string where
  "user_2 = ''00000000-0000-4000-8000-0000000000a2''"

definition env0 :: env where
  "env0 = \<lparr>fresh_id = inv_1, today = ''2024-01-01'', now = 0\<rparr>"

definition no_attrs :: attrs where
  "no_attrs =
     \<lparr>a_id = None, a_invoiceNumber = None, a_invoiceDate = None, a_dueDate = None,
      a_logoUrl = None, a_sender = None, a_recipient = None, a_items = None,
      a_currency = None, a_taxRate = None, a_subtotal = None, a_total = None,
      a_UserId = None\<rparr>"

definition item_2x10 :: item where
  "item_2x10 = \<lparr>id_item = ''1'', description = ''Design'', quantity = Some (Finite 2),
                 unitPrice = Some (Finite 10)\<rparr>"

definition item_1x50 :: item where
  "item_1x50 = \<lparr>id_item = ''1'', description = ''Design'', quantity = Some (Finite 1),
                 unitPrice = Some (Finite 50)\<rparr>"

definition invoice0 :: invoice where
  "invoice0 =
     \<lparr>id_inv = inv_1, invoiceNumber = None, invoiceDate = ''2024-01-01'', dueDate = None,
      logoUrl = None, sender = empty_address, recipient = empty_address,
      items = [item_2x10], currency = ''USD'', taxRate = Finite 10,
      subtotal = Finite 20, total = Finite 22, UserId = user_1, createdAt = 0\<rparr>"

definition attrs_create :: attrs where
  "attrs_create = no_attrs\<lparr>a_items := Some [item_2x10], a_taxRate := Some (Finite 10),
     a_subtotal := Some (Finite 999), a_total := Some (Finite 999), a_UserId := Some user_1\<rparr>"

definition attrs_update :: attrs where
  "attrs_update = no_attrs\<lparr>a_items := Some [item_1x50],
     a_subtotal := Some (Finite 999), a_total := Some (Finite 999)\<rparr>"

definition invoice1 :: invoice where
  "invoice1 = invoice0\<lparr>items := [item_1x50], subtotal := Finite 50, total := Finite 55\<rparr>"

definition blank_invoice :: invoice where
  "blank_invoice =
     \<lparr>id_inv = inv_9, invoiceNumber = None, invoiceDate = ''2024-01-01'', dueDate = None,
      logoUrl = None, sender = empty_address, recipient = empty_address,
      items = [], currency = ''USD'', taxRate = Finite 0,
      subtotal = Finite 0, total = Finite 0, UserId = user_1, createdAt = 0\<rparr>"

definition with_items :: "item list \<Rightarrow> number \<Rightarrow> instance" where
  "with_items its r = \<lparr>dataValues = blank_invoice\<lparr>items := its, taxRate := r\<rparr>, changed = {}\<rparr>"

definition line :: "string \<Rightarrow> rat \<Rightarrow> rat \<Rightarrow> item" where
  "line d q p =
     \<lparr>id_item = d, description = d, quantity = Some (Finite q), unitPrice = Some (Finite p)\<rparr>"

definition body_update :: body where
  "body_update =
     \<lparr>b_invoiceNumber = None, b_invoiceDate = Some ''2024-02-01'', b_dueDate = None,
      b_logoUrl = None, b_sender = Some empty_address, b_recipient = Some empty_address,
      b_items = ItemsArray [item_1x50], b_currency = None, b_taxRate = None,
      b_subtotal = Some (Finite 999), b_total = Some (Finite 999)\<rparr>"

definition attrs_only_subtotal :: attrs where
  "attrs_only_subtotal = no_attrs\<lparr>a_subtotal := Some (Finite 999)\<rparr>"

definition items_big_first :: "item list" where
  "items_big_first = [line ''big'' 9007199254740992 1, line ''one'' 1 1, line ''one'' 1 1]"

definition items_big_last :: "item list" where
  "items_big_last = [line ''one'' 1 1, line ''one'' 1 1, line ''big'' 9007199254740992 1]"

definition items_overflow :: "item list" where
  "items_overflow = [line ''huge'' (2 ^ 600) (2 ^ 600)]"

definition items_3x1 :: "item list" where
  "items_3x1 = [line ''x'' 3 1]"

definition items_A_B :: "item list" where
  "items_A_B =
     [\<lparr>id_item = ''1'', description = ''A'', quantity = Some (Finite 3),
       unitPrice = Some (Finite 20)\<rparr>,
      \<lparr>id_item = ''2'', description = ''B'', quantity = Some (Finite 1),
       unitPrice = Some (Finite 15)\<rparr>]"

definition user_verified :: user where
  "user_verified = \<lparr>u_id = user_1, emailVerified = True\<rparr>"

definition user_unverified :: user where
  "user_unverified = \<lparr>u_id = user_1, emailVerified = False\<rparr>"

definition empty_body :: body where
  "empty_body =
     \<lparr>b_invoiceNumber = None, b_invoiceDate = None, b_dueDate = None, b_logoUrl = None,
      b_sender = None, b_recipient = None, b_items = ItemsFalsy, b_currency = None,
      b_taxRate = None, b_subtotal = None, b_total = None\<rparr>"

definition request_of :: "http_method \<Rightarrow> user \<Rightarrow> string \<Rightarrow> body \<Rightarrow> request" where
  "request_of m u i b =
     \<lparr>req_method = m, auth = Authenticated u, query_id = QString i, query_page = None,
      query_limit = None, req_body = b\<rparr>"

definition body_create :: body where
  "body_create =
     \<lparr>b_invoiceNumber = None, b_invoiceDate = Some ''2024-01-01'', b_dueDate = None,
      b_logoUrl = None, b_sender = Some empty_address, b_recipient = Some empty_address,
      b_items = ItemsArray [item_2x10], b_currency = None, b_taxRate = Some (Finite 10),
      b_subtotal = Some (Finite 999), b_total = Some (Finite 999)\<rparr>"

definition invoice2 :: invoice where
  "invoice2 = invoice1\<lparr>invoiceDate := ''2024-02-01''\<rparr>"

definition invoice_of_other_user :: invoice where
  "invoice_of_other_user = invoice0\<lparr>UserId := user_2\<rparr>"





section \<open>Properties of the rounding\<close>

text \<open>
  \<open>floor_log2\<close> finds the binary exponent; rounding a representable value returns
  it; every finite result of a rounding is representable, so that rounding is
  idempotent; values below \<open>2^1023\<close> in magnitude never overflow, values from
  \<open>2^1024\<close> on always do. The last lemmas evaluate a rounding from its exponent and
  its mantissa.
\<close>

lemma two_powi_pos: "0 < (2::rat) powi k"
  by simp

lemma two_powi_Suc: "(2::rat) powi (k + 1) = 2 * 2 powi k"
  by (simp add: power_int_add)

lemma two_powi_mono: "j \<le> k \<Longrightarrow> (2::rat) powi j \<le> 2 powi k"
  by (rule power_int_increasing) simp_all

lemma two_powi_less_cancel: "(2::rat) powi j < 2 powi k \<Longrightarrow> j < k"
  using two_powi_mono [of k j] by (cases "j < k") simp_all

lemma bitlen_rat_bounds:
  assumes "0 < p"
  shows "(2::rat) powi (bitlen p - 1) \<le> of_int p" and "of_int p < (2::rat) powi bitlen p"
proof -
  have b1: "1 \<le> bitlen p"
    using assms bitlen_eq_zero_iff [of p] bitlen_nonneg [of p] by linarith
  from bitlen_bounds [OF assms]
  have lo: "2 ^ nat (bitlen p - 1) \<le> p" and hi: "p < 2 ^ nat (bitlen p)"
    by simp_all
  have "(of_int (2 ^ nat (bitlen p - 1)) :: rat) \<le> of_int p"
    using lo by (simp only: of_int_le_iff)
  then show "(2::rat) powi (bitlen p - 1) \<le> of_int p"
    using b1 by (simp add: power_int_def)
  have "(of_int p :: rat) < of_int (2 ^ nat (bitlen p))"
    using hi by (simp only: of_int_less_iff)
  then show "of_int p < (2::rat) powi bitlen p"
    using b1 by (simp add: power_int_def)
qed

lemma floor_log2_bounds:
  assumes "0 < q"
  shows "2 powi floor_log2 q \<le> q" and "q < 2 powi (floor_log2 q + 1)"
proof -
  obtain p d where pd: "quotient_of q = (p, d)"
    by (cases "quotient_of q") simp
  have dpos: "0 < d"
    using pd by (rule quotient_of_denom_pos)
  have qeq: "q = of_int p / of_int d"
    using pd by (rule quotient_of_div)
  have ppos: "0 < p"
    using assms dpos qeq by (simp add: zero_less_divide_iff)
  define k where "k = bitlen p - bitlen d"
  have dr: "(0::rat) < of_int d" using dpos by simp
  have "q * of_int d = of_int p"
    using dr qeq by simp
  have up: "q < 2 powi (k + 1)"
  proof -
    have "of_int p < (2::rat) powi bitlen p"
      using bitlen_rat_bounds(2) [OF ppos] .
    also have "\<dots> = 2 powi (k + 1) * 2 powi (bitlen d - 1)"
      by (simp add: k_def flip: power_int_add)
    also have "\<dots> \<le> 2 powi (k + 1) * of_int d"
      using bitlen_rat_bounds(1) [OF dpos] by (simp add: mult_left_mono)
    finally show ?thesis
      using dr qeq by (simp add: pos_divide_less_eq)
  qed
  have lo: "2 powi (k - 1) \<le> q"
  proof -
    have "(2::rat) powi (k - 1) * of_int d \<le> 2 powi (k - 1) * 2 powi bitlen d"
      using bitlen_rat_bounds(2) [OF dpos] by (simp add: mult_left_mono)
    also have "\<dots> = 2 powi (bitlen p - 1)"
      by (simp add: k_def flip: power_int_add)
    also have "\<dots> \<le> of_int p"
      using bitlen_rat_bounds(1) [OF ppos] .
    finally show ?thesis
      using dr qeq by (simp add: pos_le_divide_eq)
  qed
  have fl: "floor_log2 q = (if 2 powi k \<le> q then k else k - 1)"
    by (simp add: floor_log2_def pd k_def Let_def)
  show "2 powi floor_log2 q \<le> q"
    using lo by (simp add: fl)
  show "q < 2 powi (floor_log2 q + 1)"
    using up by (auto simp add: fl not_le)
qed

lemma floor_log2_unique:
  assumes "2 powi e \<le> q" and "q < 2 powi (e + 1)"
  shows "floor_log2 q = e"
proof -
  have qpos: "0 < q"
    using assms(1) two_powi_pos [of e] by linarith
  note b = floor_log2_bounds [OF qpos]
  have "(2::rat) powi e < 2 powi (floor_log2 q + 1)"
    using assms(1) b(2) by linarith
  then have "e < floor_log2 q + 1" by (rule two_powi_less_cancel)
  moreover have "(2::rat) powi floor_log2 q < 2 powi (e + 1)"
    using assms(2) b(1) by linarith
  then have "floor_log2 q < e + 1" by (rule two_powi_less_cancel)
  ultimately show ?thesis by linarith
qed

lemma round_half_even_of_int: "round_half_even (of_int n) = n"
  by (simp add: round_half_even_def)

lemma round_half_even_bounds:
  "of_int (round_half_even m) \<le> m + 1 / 2" "m - 1 / 2 \<le> of_int (round_half_even m)"
proof -
  define n where "n = \<lfloor>m\<rfloor>"
  define f where "f = m - of_int n"
  have f1: "0 \<le> f" and f2: "f < 1"
    unfolding f_def n_def by linarith+
  have r: "round_half_even m = (if f < 1 / 2 then n else if 1 / 2 < f then n + 1
             else if even n then n else n + 1)"
    by (simp add: round_half_even_def Let_def n_def f_def)
  have "of_int (round_half_even m) \<le> of_int n + f + 1 / 2"
    unfolding r using f1 f2 by (simp split: if_splits)
  then show "of_int (round_half_even m) \<le> m + 1 / 2"
    by (simp add: f_def)
  have "of_int n + f - 1 / 2 \<le> of_int (round_half_even m)"
    unfolding r using f1 f2 by (simp split: if_splits)
  then show "m - 1 / 2 \<le> of_int (round_half_even m)"
    by (simp add: f_def)
qed

lemma round_half_even_near:
  assumes "\<bar>m - of_int n\<bar> < 1 / 2"
  shows "round_half_even m = n"
proof -
  have f1: "of_int \<lfloor>m\<rfloor> \<le> m" and f2: "m < of_int \<lfloor>m\<rfloor> + 1"
    by linarith+
  consider "\<lfloor>m\<rfloor> = n" | "\<lfloor>m\<rfloor> = n - 1"
  proof -
    have "of_int n - 1 < m" "m < of_int n + 1" using assms by linarith+
    then have "n - 1 \<le> \<lfloor>m\<rfloor>" "\<lfloor>m\<rfloor> < n + 1"
      using le_floor_iff [of "n - 1" m] floor_less_iff [of m "n + 1"] by simp_all
    then show ?thesis using that by linarith
  qed
  then show ?thesis
  proof cases
    case 1
    then show ?thesis using assms f1 by (simp add: round_half_even_def Let_def)
  next
    case 2
    then show ?thesis using assms f2 by (auto simp add: round_half_even_def Let_def)
  qed
qed

lemma round_half_even_mono_int:
  assumes "m \<le> of_int n"
  shows "round_half_even m \<le> n"
proof -
  have "\<lfloor>m\<rfloor> \<le> n" using assms by (simp add: floor_le_iff)
  have f1: "of_int \<lfloor>m\<rfloor> \<le> m" by linarith
  show ?thesis
  proof (cases "\<lfloor>m\<rfloor> = n")
    case True
    then have "m = of_int n" using assms f1 by linarith
    then show ?thesis by (simp add: round_half_even_of_int)
  next
    case False
    then have "\<lfloor>m\<rfloor> + 1 \<le> n" using \<open>\<lfloor>m\<rfloor> \<le> n\<close> by linarith
    then show ?thesis by (auto simp add: round_half_even_def Let_def)
  qed
qed

lemma round64_pos_unfold:
  assumes "0 < q" and "2 powi e \<le> q" and "q < 2 powi (e + 1)"
  shows "round64 q =
     (let k = max e (- 1022) - 52; r = of_int (round_half_even (q / 2 powi k)) * 2 powi k
      in if 2 powi 1024 \<le> r then PInf else Finite r)"
proof -
  have "floor_log2 \<bar>q\<bar> = e"
    using assms by (simp add: floor_log2_unique)
  then show ?thesis
    using assms(1) by (simp add: round64_def Let_def)
qed

lemma round64_neg: "round64 (- q) = (case round64 q of Finite r \<Rightarrow> Finite (- r)
    | PInf \<Rightarrow> NInf | NInf \<Rightarrow> PInf | NaN \<Rightarrow> NaN)"
  by (simp add: round64_def Let_def)

lemma representable_minus: "representable q \<Longrightarrow> representable (- q)"
proof -
  assume "representable q"
  then obtain n k where nk: "q = of_int n * 2 powi k" "\<bar>n\<bar> \<le> 2 ^ 53" "- 1074 \<le> k"
    and b: "\<bar>q\<bar> < 2 powi 1024"
    unfolding representable_def by blast
  have "- q = of_int (- n) * 2 powi k" "\<bar>- n\<bar> \<le> 2 ^ 53"
    using nk by simp_all
  then show ?thesis
    unfolding representable_def using nk(3) b by (metis abs_minus_cancel)
qed

lemma round64_exact_pos:
  assumes q: "q = of_int n * 2 powi k" and n: "0 < n" "n \<le> 2 ^ 53" and k: "- 1074 \<le> k"
    and b: "q < 2 powi 1024"
  shows "round64 q = Finite q"
proof -
  have qpos: "0 < q"
    using q n(1) by simp
  define e where "e = floor_log2 q"
  note eb = floor_log2_bounds [OF qpos, folded e_def]
  define k' where "k' = max e (- 1022) - 52"
  have "\<exists>m. q / 2 powi k' = of_int m"
  proof (cases "n = 2 ^ 53")
    case True
    then have "q = 2 powi (53 + k)"
      using q by (simp add: power_int_add)
    then have "floor_log2 q = 53 + k"
      by (intro floor_log2_unique) (simp_all add: power_int_add)
    then have "e = 53 + k" by (simp add: e_def)
    then have "k' = k + 1" using k by (simp add: k'_def)
    then have "q / 2 powi k' = 2 powi 52"
      using \<open>q = 2 powi (53 + k)\<close> by (simp add: power_int_add)
    also have "\<dots> = of_int (2 ^ 52)" by simp
    finally show ?thesis by blast
  next
    case False
    then have "n < 2 ^ 53" using n(2) by linarith
    then have "(of_int n :: rat) < of_int (2 ^ 53)"
      by (simp only: of_int_less_iff)
    then have "(of_int n :: rat) < 2 powi 53" by simp
    then have "q < 2 powi 53 * 2 powi k"
      unfolding q by (simp add: mult_strict_right_mono)
    then have "q < 2 powi (53 + k)" by (simp add: power_int_add)
    with eb(1) have "(2::rat) powi e < 2 powi (53 + k)" by linarith
    then have "e < 53 + k" by (rule two_powi_less_cancel)
    then have le: "k' \<le> k" using k by (simp add: k'_def)
    have "q / 2 powi k' = of_int n * 2 powi (k - k')"
      unfolding q by (simp add: power_int_diff)
    also have "\<dots> = of_int n * 2 ^ nat (k - k')"
      using le by (simp add: power_int_def)
    also have "\<dots> = of_int (n * 2 ^ nat (k - k'))" by simp
    finally show ?thesis by blast
  qed
  then obtain m where m: "q / 2 powi k' = of_int m" ..
  then have r: "of_int m * 2 powi k' = q" by (simp add: field_simps)
  have "round64 q = (if 2 powi 1024 \<le> q then PInf else Finite q)"
    using round64_pos_unfold [OF qpos eb]
    by (simp add: Let_def m round_half_even_of_int r flip: k'_def)
  then show ?thesis using b by simp
qed

lemma round64_exact:
  assumes "representable q"
  shows "round64 q = Finite q"
proof -
  from assms obtain n k where nk: "q = of_int n * 2 powi k" "\<bar>n\<bar> \<le> 2 ^ 53" "- 1074 \<le> k"
    and b: "\<bar>q\<bar> < 2 powi 1024"
    unfolding representable_def by blast
  consider "n = 0" | "0 < n" | "n < 0" by linarith
  then show ?thesis
  proof cases
    case 1
    then show ?thesis using nk(1) by (simp add: round64_def)
  next
    case 2
    then show ?thesis
      using round64_exact_pos [OF nk(1) 2 _ nk(3)] nk(2) b by simp
  next
    case 3
    have "- q = of_int (- n) * 2 powi k" using nk(1) by simp
    moreover have "0 < - n" "- n \<le> 2 ^ 53" using 3 nk(2) by simp_all
    moreover have "- q < 2 powi 1024" using b by linarith
    ultimately have "round64 (- q) = Finite (- q)"
      using nk(3) by (intro round64_exact_pos [of "- q" "- n" k]) 
    then show ?thesis
      using round64_neg [of "- q"] by simp
  qed
qed

lemma round64_pos_mantissa:
  assumes "0 < q"
  defines "k \<equiv> max (floor_log2 q) (- 1022) - 52"
  defines "m \<equiv> round_half_even (q / 2 powi k)"
  shows "0 \<le> m" and "m \<le> 2 ^ 53" and "- 1074 \<le> k"
    and "round64 q = (if (2::rat) powi 1024 \<le> of_int m * 2 powi k then PInf
                      else Finite (of_int m * 2 powi k))"
proof -
  note eb = floor_log2_bounds [OF assms(1)]
  show "- 1074 \<le> k" by (simp add: k_def)
  have pos: "0 < q / 2 powi k" using assms(1) by simp
  have "q / 2 powi k - 1 / 2 \<le> of_int m"
    unfolding m_def by (rule round_half_even_bounds)
  with pos have "(- 1 :: rat) < of_int m" by linarith
  then have "(of_int (- 1) :: rat) < of_int m" by simp
  then have "- 1 < m" by (simp only: of_int_less_iff)
  then show "0 \<le> m" by simp
  have "floor_log2 q + 1 - k \<le> 53" by (simp add: k_def)
  have "q / 2 powi k < 2 powi (floor_log2 q + 1) / 2 powi k"
    using eb(2) by (simp add: divide_strict_right_mono)
  also have "\<dots> = 2 powi (floor_log2 q + 1 - k)"
    by (simp add: power_int_diff)
  also have "\<dots> \<le> 2 powi 53"
    using \<open>floor_log2 q + 1 - k \<le> 53\<close> by (rule two_powi_mono)
  also have "\<dots> = of_int (2 ^ 53)" by simp
  finally have "q / 2 powi k \<le> of_int (2 ^ 53)" by simp
  then show "m \<le> 2 ^ 53"
    unfolding m_def by (rule round_half_even_mono_int)
  show "round64 q = (if (2::rat) powi 1024 \<le> of_int m * 2 powi k then PInf
                      else Finite (of_int m * 2 powi k))"
    using round64_pos_unfold [OF assms(1) eb] by (simp add: Let_def k_def m_def)
qed

lemma round64_image_pos:
  assumes "0 < q" and "round64 q = Finite r"
  shows "representable r"
proof -
  define k where "k = max (floor_log2 q) (- 1022) - 52"
  define m where "m = round_half_even (q / 2 powi k)"
  note f = round64_pos_mantissa [OF assms(1), folded k_def m_def]
  have nov: "\<not> (2::rat) powi 1024 \<le> of_int m * 2 powi k" and r: "r = of_int m * 2 powi k"
    using assms(2) f(4) by (simp_all split: if_splits)
  have "0 \<le> r" using f(1) r by simp
  then have "\<bar>r\<bar> < 2 powi 1024" using nov r by simp
  moreover have "\<bar>m\<bar> \<le> 2 ^ 53" using f(1,2) by simp
  ultimately show ?thesis
    unfolding representable_def using r f(3) by blast
qed

lemma round64_image:
  assumes "round64 q = Finite r"
  shows "representable r"
proof -
  consider "q = 0" | "0 < q" | "q < 0" by linarith
  then show ?thesis
  proof cases
    case 1
    then have "r = 0" using assms by (simp add: round64_def)
    then have "r = of_int 0 * 2 powi 0" by simp
    then show ?thesis
      unfolding representable_def using \<open>r = 0\<close>
      by (metis abs_zero zero_less_power_int zero_less_numeral abs_ge_zero
            zero_le_numeral zero_le_power neg_numeral_le_zero)
  next
    case 2
    then show ?thesis using assms by (rule round64_image_pos)
  next
    case 3
    have "round64 (- q) = Finite (- r)"
      using assms by (simp add: round64_neg [of q])
    then have "representable (- r)"
      using 3 by (intro round64_image_pos [of "- q"]) simp_all
    then show ?thesis
      using representable_minus [of "- r"] by simp
  qed
qed

lemma round64_idem: "round64 q = Finite r \<Longrightarrow> round64 r = Finite r"
  by (rule round64_exact) (rule round64_image)

lemma round64_finite_pos:
  assumes "0 < q" and "q < 2 powi 1023"
  shows "\<exists>r. round64 q = Finite r"
proof -
  define k where "k = max (floor_log2 q) (- 1022) - 52"
  define m where "m = round_half_even (q / 2 powi k)"
  note f = round64_pos_mantissa [OF assms(1), folded k_def m_def]
  note eb = floor_log2_bounds [OF assms(1)]
  have "(2::rat) powi floor_log2 q < 2 powi 1023"
    using eb(1) assms(2) by linarith
  then have "floor_log2 q < 1023" by (rule two_powi_less_cancel)
  then have k: "53 + k \<le> 1023" by (simp add: k_def)
  have "(of_int m :: rat) \<le> of_int (2 ^ 53)"
    using f(2) by (simp only: of_int_le_iff)
  then have "(of_int m :: rat) \<le> 2 powi 53" by simp
  then have "of_int m * 2 powi k \<le> (2::rat) powi 53 * 2 powi k"
    by (simp add: mult_right_mono)
  also have "\<dots> = 2 powi (53 + k)" by (simp add: power_int_add)
  also have "\<dots> \<le> 2 powi 1023" using k by (rule two_powi_mono)
  also have "\<dots> < (2::rat) powi 1024"
    by (rule power_int_strict_increasing) simp_all
  finally show ?thesis using f(4) by simp
qed

lemma round64_finite:
  assumes "\<bar>q\<bar> < 2 powi 1023"
  shows "\<exists>r. round64 q = Finite r"
proof -
  consider "q = 0" | "0 < q" | "q < 0" by linarith
  then show ?thesis
  proof cases
    case 1
    then show ?thesis by (simp add: round64_def)
  next
    case 2
    then show ?thesis using assms by (intro round64_finite_pos) simp_all
  next
    case 3
    then have "\<exists>r. round64 (- q) = Finite r"
      using assms by (intro round64_finite_pos) simp_all
    then show ?thesis
      using round64_neg [of "- q"] by auto
  qed
qed

lemma round_half_even_ge_int:
  assumes "of_int n \<le> m"
  shows "n \<le> round_half_even m"
proof -
  have "n \<le> \<lfloor>m\<rfloor>" using assms by (simp add: le_floor_iff)
  then show ?thesis by (auto simp add: round_half_even_def Let_def)
qed

lemma round_half_even_tie:
  assumes "m = of_int n + 1 / 2"
  shows "round_half_even m = (if even n then n else n + 1)"
proof -
  have "\<lfloor>m\<rfloor> = n"
    unfolding assms by (rule floor_unique) simp_all
  then show ?thesis
    by (simp add: round_half_even_def Let_def assms)
qed

lemma round64_overflow:
  assumes "2 powi 1024 \<le> q"
  shows "round64 q = PInf"
proof -
  have qpos: "0 < q"
    using assms two_powi_pos [of 1024] by linarith
  define k where "k = max (floor_log2 q) (- 1022) - 52"
  define m where "m = round_half_even (q / 2 powi k)"
  note f = round64_pos_mantissa [OF qpos, folded k_def m_def]
  note eb = floor_log2_bounds [OF qpos]
  have "(2::rat) powi 1024 < 2 powi (floor_log2 q + 1)"
    using assms eb(2) by linarith
  then have "1024 < floor_log2 q + 1" by (rule two_powi_less_cancel)
  then have k: "k = floor_log2 q - 52" by (simp add: k_def)
  have "(2::rat) powi (floor_log2 q - k) = 2 powi (floor_log2 q) / 2 powi k"
    by (rule power_int_diff) simp
  then have "(of_int (2 ^ 52) :: rat) = 2 powi (floor_log2 q) / 2 powi k"
    by (simp add: k)
  also have "\<dots> \<le> q / 2 powi k"
    using eb(1) by (simp add: divide_right_mono)
  finally have "2 ^ 52 \<le> m"
    unfolding m_def by (rule round_half_even_ge_int)
  then have "(of_int (2 ^ 52) :: rat) \<le> of_int m"
    by (simp only: of_int_le_iff)
  then have "(2::rat) powi 52 * 2 powi k \<le> of_int m * 2 powi k"
    by (simp add: mult_right_mono)
  moreover have "(2::rat) powi 52 * 2 powi k = 2 powi (52 + k)"
    by (rule power_int_add [symmetric]) simp
  moreover have "52 + k = floor_log2 q"
    by (simp add: k)
  moreover have "(2::rat) powi 1024 \<le> 2 powi (floor_log2 q)"
    using \<open>1024 < floor_log2 q + 1\<close> by (intro two_powi_mono) simp
  ultimately have "(2::rat) powi 1024 \<le> of_int m * 2 powi k" by (simp only:)
  then show ?thesis using f(4) by simp
qed

lemma round64_int:
  assumes "\<bar>n\<bar> \<le> 2 ^ 53"
  shows "round64 (of_int n) = Finite (of_int n)"
proof (rule round64_exact)
  have "(of_int \<bar>n\<bar> :: rat) \<le> of_int (2 ^ 53)"
    using assms by (simp only: of_int_le_iff)
  then have "\<bar>of_int n :: rat\<bar> \<le> 2 ^ 53" by simp
  then have "\<bar>of_int n :: rat\<bar> < 2 powi 1024" by simp
  moreover have "(of_int n :: rat) = of_int n * 2 powi 0" by simp
  ultimately show "representable (of_int n)"
    unfolding representable_def using assms by (metis neg_numeral_le_zero)
qed

lemma round64_near:
  assumes "2 powi e \<le> q" and "q < 2 powi (e + 1)"
    and "\<bar>q / 2 powi (max e (- 1022) - 52) - of_int n\<bar> < 1 / 2"
    and "of_int n * 2 powi (max e (- 1022) - 52) < (2::rat) powi 1024"
  shows "round64 q = Finite (of_int n * 2 powi (max e (- 1022) - 52))"
proof -
  have qpos: "0 < q"
    using assms(1) two_powi_pos [of e] by linarith
  show ?thesis
    using round64_pos_unfold [OF qpos assms(1,2)] round_half_even_near [OF assms(3)] assms(4)
    by (simp add: Let_def)
qed

lemma round64_tie:
  assumes "2 powi e \<le> q" and "q < 2 powi (e + 1)"
    and "q / 2 powi (max e (- 1022) - 52) = of_int n + 1 / 2" and "even n"
    and "of_int n * 2 powi (max e (- 1022) - 52) < (2::rat) powi 1024"
  shows "round64 q = Finite (of_int n * 2 powi (max e (- 1022) - 52))"
proof -
  have qpos: "0 < q"
    using assms(1) two_powi_pos [of e] by linarith
  show ?thesis
    using round64_pos_unfold [OF qpos assms(1,2)] round_half_even_tie [OF assms(3)] assms(4,5)
    by (simp add: Let_def)
qed

lemma round64_tie_odd:
  assumes "2 powi e \<le> q" and "q < 2 powi (e + 1)"
    and "q / 2 powi (max e (- 1022) - 52) = of_int n + 1 / 2" and "odd n"
    and "of_int (n + 1) * 2 powi (max e (- 1022) - 52) < (2::rat) powi 1024"
  shows "round64 q = Finite (of_int (n + 1) * 2 powi (max e (- 1022) - 52))"
proof -
  have qpos: "0 < q"
    using assms(1) two_powi_pos [of e] by linarith
  show ?thesis
    using round64_pos_unfold [OF qpos assms(1,2)] round_half_even_tie [OF assms(3)] assms(4,5)
    by (simp add: Let_def)
qed

lemma round64_zero: "round64 0 = Finite 0"
  by (simp add: round64_def)

lemma round64_numeral:
  "numeral w \<le> (2::int) ^ 53 \<Longrightarrow> round64 (numeral w) = Finite (numeral w)"
  using round64_int [of "numeral w"] by simp

lemma round64_one: "round64 1 = Finite 1"
  using round64_int [of 1] by simp

text \<open>
  A check of the model against a familiar value: \<open>0.1 + 0.2\<close> is
  \<open>0.30000000000000004\<close>, by a tie that rounds to the even mantissa.
\<close>

lemma tenth_plus_fifth:
  "fadd (Finite (3602879701896397 / 36028797018963968))
        (Finite (3602879701896397 / 18014398509481984)) =
     Finite (1351079888211149 / 4503599627370496)"
  using round64_tie_odd [of "- 2"
      "3602879701896397 / 36028797018963968 + 3602879701896397 / 18014398509481984"
      5404319552844595]
  by simp

section \<open>The hooks and the assignment of attributes\<close>

lemma foldl_products:
  "foldl (\<lambda>sum item. fadd sum (fmul (to_number (quantity item)) (to_number (unitPrice item))))
     z its =
   foldl fadd z (map line_total its)"
  by (induction its arbitrary: z) (simp_all add: line_total_def)

lemma beforeCreate_values:
  "dataValues (beforeCreate ins) =
     (dataValues ins)\<lparr>subtotal := spec_subtotal (items (dataValues ins)),
       total := spec_total (spec_subtotal (items (dataValues ins))) (taxRate (dataValues ins))\<rparr>"
  by (simp add: beforeCreate_def set_key_def Let_def spec_subtotal_def spec_total_def
        foldl_products)

lemma beforeUpdate_values:
  "dataValues (beforeUpdate ins) =
     (if ''items'' \<in> changed ins \<or> ''taxRate'' \<in> changed ins then
        (dataValues ins)\<lparr>subtotal := spec_subtotal (items (dataValues ins)),
          total := spec_total (spec_subtotal (items (dataValues ins))) (taxRate (dataValues ins))\<rparr>
      else dataValues ins)"
  by (simp add: beforeUpdate_def set_key_def Let_def spec_subtotal_def spec_total_def
        foldl_products)

lemma set_key_preserves:
  "(\<And>x r. f (p x r) = f r) \<Longrightarrow> f (dataValues (set_key k g p v ins)) = f (dataValues ins)"
  by (cases v) (simp_all add: set_key_def)

lemma set_key_hit:
  "f (dataValues (set_key k g p v ins)) =
     (case v of None \<Rightarrow> f (dataValues ins) | Some x \<Rightarrow> f (p x (dataValues ins)))"
  by (cases v) (simp_all add: set_key_def)

lemma changed_set_key_iff:
  "k' \<in> changed (set_key k g p v ins) \<longleftrightarrow>
     k' \<in> changed ins \<or> (k' = k \<and> (\<exists>x. v = Some x \<and> x \<noteq> g (dataValues ins)))"
  by (cases v) (auto simp add: set_key_def)

lemma items_instance_set:
  "items (dataValues (instance_set ins a)) =
     (case a_items a of None \<Rightarrow> items (dataValues ins) | Some x \<Rightarrow> x)"
  unfolding instance_set_def Let_def
  by (simp add: set_key_preserves [where f = items]
        set_key_hit [where f = items and k = "''items''"] split: option.splits)

lemma taxRate_instance_set:
  "taxRate (dataValues (instance_set ins a)) =
     (case a_taxRate a of None \<Rightarrow> taxRate (dataValues ins) | Some x \<Rightarrow> x)"
  unfolding instance_set_def Let_def
  by (simp add: set_key_preserves [where f = taxRate]
        set_key_hit [where f = taxRate and k = "''taxRate''"] split: option.splits)

lemma subtotal_instance_set:
  "subtotal (dataValues (instance_set ins a)) =
     (case a_subtotal a of None \<Rightarrow> subtotal (dataValues ins) | Some x \<Rightarrow> x)"
  unfolding instance_set_def Let_def
  by (simp add: set_key_preserves [where f = subtotal]
        set_key_hit [where f = subtotal and k = "''subtotal''"] split: option.splits)

lemma total_instance_set:
  "total (dataValues (instance_set ins a)) =
     (case a_total a of None \<Rightarrow> total (dataValues ins) | Some x \<Rightarrow> x)"
  unfolding instance_set_def Let_def
  by (simp add: set_key_preserves [where f = total]
        set_key_hit [where f = total and k = "''total''"] split: option.splits)

lemma id_instance_set: "id_inv (dataValues (instance_set ins a)) = id_inv (dataValues ins)"
  unfolding instance_set_def Let_def
  by (simp add: set_key_preserves [where f = id_inv])

lemma UserId_instance_set:
  "UserId (dataValues (instance_set ins a)) =
     (case a_UserId a of None \<Rightarrow> UserId (dataValues ins) | Some x \<Rightarrow> x)"
  unfolding instance_set_def Let_def
  by (simp add: set_key_preserves [where f = UserId]
        set_key_hit [where f = UserId and k = "''UserId''"] split: option.splits)

lemma items_in_changed:
  "''items'' \<in> changed (instance_set ins a) \<longleftrightarrow>
     ''items'' \<in> changed ins \<or> (\<exists>v. a_items a = Some v \<and> v \<noteq> items (dataValues ins))"
  unfolding instance_set_def Let_def
  by (simp add: changed_set_key_iff set_key_preserves [where f = items])

lemma taxRate_in_changed:
  "''taxRate'' \<in> changed (instance_set ins a) \<longleftrightarrow>
     ''taxRate'' \<in> changed ins \<or> (\<exists>v. a_taxRate a = Some v \<and> v \<noteq> taxRate (dataValues ins))"
  unfolding instance_set_def Let_def
  by (simp add: changed_set_key_iff set_key_preserves [where f = taxRate])


lemma subtotal_beforeCreate:
  "subtotal (dataValues (beforeCreate ins)) = spec_subtotal (items (dataValues ins))"
  by (simp add: beforeCreate_values)

lemma total_beforeCreate:
  "total (dataValues (beforeCreate ins)) =
     spec_total (spec_subtotal (items (dataValues ins))) (taxRate (dataValues ins))"
  by (simp add: beforeCreate_values)

lemma items_beforeCreate: "items (dataValues (beforeCreate ins)) = items (dataValues ins)"
  by (simp add: beforeCreate_values)

lemma items_beforeUpdate: "items (dataValues (beforeUpdate ins)) = items (dataValues ins)"
  by (simp add: beforeUpdate_values)

lemma id_beforeUpdate: "id_inv (dataValues (beforeUpdate ins)) = id_inv (dataValues ins)"
  by (simp add: beforeUpdate_values)



section \<open>Rows of the table\<close>

lemma find_append_miss: "find P xs = None \<Longrightarrow> find P (xs @ ys) = find P ys"
  by (induction xs) (simp_all split: if_splits)

lemma jsonb_number_id: "json_number x \<Longrightarrow> jsonb_number x = x"
  by (cases x rule: json_number.cases) simp_all

lemma jsonb_items_id: "json_items its \<Longrightarrow> map jsonb_item its = its"
  by (induction its) (simp_all add: json_items_def jsonb_item_def jsonb_number_id)

lemma jsonb_row_id: "json_items (items row) \<Longrightarrow> jsonb_row row = row"
  by (simp add: jsonb_row_def jsonb_items_id)

lemma jsonb_row_simps:
  "id_inv (jsonb_row row) = id_inv row"
  "UserId (jsonb_row row) = UserId row"
  "items (jsonb_row row) = map jsonb_item (items row)"
  by (simp_all add: jsonb_row_def)

lemma uuid_canon_Nil: "uuid_canon [] = None"
  by (simp add: uuid_canon_def upt_rec)

lemma sample_ids:
  "uuid_canon inv_1 = Some inv_1"
  "uuid_canon inv_9 = Some inv_9"
  "inv_9 \<noteq> inv_1"
  "inv_1 \<noteq> inv_9"
  "inv_1 \<noteq> []"
  "inv_9 \<noteq> []"
  "user_2 \<noteq> user_1"
  "uuid_canon ''inv-9'' = None"
  by (simp_all add: inv_1_def inv_9_def user_1_def user_2_def uuid_canon_def is_xdigit_def
        lower_xdigit_def upt_rec)

lemma findByPk_replaced:
  assumes "old \<in> set st" and "id_inv row' = id_inv old" and "uuid_canon i = Some (id_inv old)"
  shows "Invoice_findByPk (map (\<lambda>r. if id_inv r = id_inv old then row' else r) st) i
           = Inr (Some row')"
  using assms(1,2) unfolding Invoice_findByPk_def assms(3)
  by (induction st) auto

lemma findOne_SomeD:
  assumes "Invoice_findOne st i u = Inr (Some old)"
  shows "old \<in> set st" and "uuid_canon i = Some (id_inv old)" and "UserId old = u"
  using assms unfolding Invoice_findOne_def
  by (auto simp add: find_Some_iff split: option.splits)

lemma findOne_None_iff:
  assumes "uuid_canon i = Some c"
  shows "Invoice_findOne st i u = Inr None \<longleftrightarrow> (\<forall>r\<in>set st. id_inv r = c \<longrightarrow> UserId r \<noteq> u)"
  by (auto simp add: Invoice_findOne_def assms find_None_iff)

lemma items_Invoice_build:
  "items (dataValues (Invoice_build e a)) = (case a_items a of None \<Rightarrow> [] | Some its \<Rightarrow> its)"
  by (simp add: Invoice_build_def items_instance_set split: option.splits)

lemma Invoice_create_row:
  assumes "Invoice_create e st a = Inr (row, st')"
  shows "st' = st @ [row]" and "id_inv row \<notin> set (map id_inv st)"
    and "row = jsonb_row ((dataValues (beforeCreate (Invoice_build e a)))\<lparr>id_inv := id_inv row\<rparr>)"
  using assms
  by (auto simp add: Invoice_create_def Let_def jsonb_row_simps split: option.splits if_splits)



lemma instance_update_result:
  "instance_update st old a =
     (dataValues (beforeUpdate (instance_set \<lparr>dataValues = old, changed = {}\<rparr> a)),
      map (\<lambda>r. if id_inv r = id_inv old
                 then jsonb_row (dataValues (beforeUpdate
                        (instance_set \<lparr>dataValues = old, changed = {}\<rparr> a)))
                 else r) st)"
  by (simp add: instance_update_def Let_def)

lemma instance_update_table:
  assumes "instance_update st old a = (row', st')" and "json_items (items row')"
  shows "st' = map (\<lambda>r. if id_inv r = id_inv old then row' else r) st"
    and "id_inv row' = id_inv old"
proof -
  have row': "row' = dataValues (beforeUpdate (instance_set \<lparr>dataValues = old, changed = {}\<rparr> a))"
    and st': "st' = map (\<lambda>r. if id_inv r = id_inv old then jsonb_row row' else r) st"
    using assms(1) by (auto simp add: instance_update_result)
  show "st' = map (\<lambda>r. if id_inv r = id_inv old then row' else r) st"
    using st' assms(2) by (simp add: jsonb_row_id)
  show "id_inv row' = id_inv old"
    by (simp add: row' id_beforeUpdate id_instance_set)
qed

lemma instance_update_stored:
  assumes "old \<in> set st" and "instance_update st old a = (row', st')"
    and "json_items (items row')" and "uuid_canon i = Some (id_inv old)"
  shows "Invoice_findByPk st' i = Inr (Some row')"
  unfolding instance_update_table(1) [OF assms(2,3)]
  using assms(1) instance_update_table(2) [OF assms(2,3)] assms(4)
  by (rule findByPk_replaced)



section \<open>Arithmetic of the totals\<close>

text \<open>
  A finite subtotal is a value that rounding returns unchanged; the tax on a subtotal
  of zero is zero at every finite rate; and on item sequences with small integer line
  totals the subtotal is the exact sum.
\<close>

lemma spec_subtotal_Nil: "spec_subtotal [] = Finite 0"
  by (simp add: spec_subtotal_def)

lemma spec_subtotal_snoc:
  "spec_subtotal (its @ [it]) = fadd (spec_subtotal its) (line_total it)"
  by (simp add: spec_subtotal_def)

lemma fadd_Finite_cases:
  assumes "fadd x y = Finite s"
  obtains a b where "x = Finite a" "y = Finite b" "round64 (a + b) = Finite s"
  using assms by (cases x; cases y) simp_all

lemma spec_subtotal_rounded:
  assumes "spec_subtotal its = Finite s"
  shows "round64 s = Finite s"
proof (cases its rule: rev_cases)
  case Nil
  then show ?thesis using assms by (simp add: spec_subtotal_Nil round64_zero)
next
  case (snoc xs x)
  then have "fadd (spec_subtotal xs) (line_total x) = Finite s"
    using assms by (simp add: spec_subtotal_snoc)
  then obtain a b where "round64 (a + b) = Finite s"
    by (rule fadd_Finite_cases)
  then show ?thesis by (rule round64_idem)
qed

lemma spec_total_zero_rate:
  assumes "round64 s = Finite s"
  shows "spec_total (Finite s) (Finite 0) = Finite s"
  using assms by (simp add: spec_total_def round64_zero)

lemma fdiv100_finite:
  assumes "\<bar>r\<bar> < 2 powi 1024"
  shows "\<exists>x. fdiv100 (Finite r) = Finite x"
proof -
  have "\<bar>r / 100\<bar> = \<bar>r\<bar> / 100" by simp
  also have "\<dots> < 2 powi 1024 / 100" using assms by (simp add: divide_strict_right_mono)
  also have "\<dots> < (2::rat) powi 1023" by simp
  finally show ?thesis
    using round64_finite [of "r / 100"] by simp
qed

lemma spec_total_empty:
  assumes "\<bar>r\<bar> < 2 powi 1024"
  shows "spec_total (Finite 0) (Finite r) = Finite 0"
proof -
  obtain x where "fdiv100 (Finite r) = Finite x"
    using fdiv100_finite [OF assms] by blast
  then show ?thesis
    by (simp add: spec_total_def round64_zero del: fdiv100.simps)
qed

lemma int_valued_cases:
  assumes "int_valued x"
  obtains n where "x = Finite (of_int n)"
  using assms by (cases x) (simp_all, metis)

lemma spec_subtotal_exact_aux:
  "small_integer_items its \<Longrightarrow>
     spec_subtotal its = Finite (sum_list (map exact_line its)) \<and>
     (\<exists>n. sum_list (map exact_line its) = of_int n) \<and>
     \<bar>sum_list (map exact_line its)\<bar> \<le> sum_list (map (\<lambda>it. \<bar>exact_line it\<bar>) its)"
proof (induction its rule: rev_induct)
  case Nil
  have "\<exists>n. sum_list (map exact_line []) = rat_of_int n"
    by (rule exI [of _ 0]) simp
  then show ?case by (simp add: spec_subtotal_Nil)
next
  case (snoc x xs)
  have ix: "case_option False int_valued (quantity x)" "case_option False int_valued (unitPrice x)"
    and all: "list_all (\<lambda>it. case_option False int_valued (quantity it) \<and>
                             case_option False int_valued (unitPrice it)) xs"
    and bound: "sum_list (map (\<lambda>it. \<bar>exact_line it\<bar>) xs) + \<bar>exact_line x\<bar> \<le> 2 ^ 53"
    using snoc.prems by (simp_all add: small_integer_items_def)
  have "sum_list (map (\<lambda>it. \<bar>exact_line it\<bar>) xs) \<le> 2 ^ 53"
    using bound by linarith
  then have sm: "small_integer_items xs"
    using all by (simp add: small_integer_items_def)
  note IH = snoc.IH [OF sm]
  have nonneg: "0 \<le> sum_list (map (\<lambda>it. \<bar>exact_line it\<bar>) xs)"
    by (rule sum_list_nonneg) auto
  from ix obtain q p where qp: "quantity x = Some (Finite (of_int q))"
    "unitPrice x = Some (Finite (of_int p))"
    by (auto split: option.splits elim!: int_valued_cases)
  have ex: "exact_line x = of_int (q * p)"
    by (simp add: exact_line_def qp)
  obtain n where n: "sum_list (map exact_line xs) = of_int n"
    using IH by blast
  have absn: "\<bar>sum_list (map exact_line xs)\<bar> \<le> sum_list (map (\<lambda>it. \<bar>exact_line it\<bar>) xs)"
    using IH by blast
  have b1: "\<bar>of_int (q * p) :: rat\<bar> \<le> 2 ^ 53"
    using bound nonneg ex by linarith
  then have "(of_int \<bar>q * p\<bar> :: rat) \<le> of_int (2 ^ 53)" by simp
  then have i1: "\<bar>q * p\<bar> \<le> 2 ^ 53" by (simp only: of_int_le_iff)
  have lt: "line_total x = Finite (of_int (q * p))"
    using round64_int [OF i1] by (simp add: line_total_def qp)
  have b2: "\<bar>of_int (n + q * p) :: rat\<bar> \<le> 2 ^ 53"
    using bound absn n ex by (simp only: of_int_add)
  then have "(of_int \<bar>n + q * p\<bar> :: rat) \<le> of_int (2 ^ 53)" by simp
  then have i2: "\<bar>n + q * p\<bar> \<le> 2 ^ 53" by (simp only: of_int_le_iff)
  have "spec_subtotal (xs @ [x]) = fadd (Finite (of_int n)) (Finite (of_int (q * p)))"
    using IH by (simp add: spec_subtotal_snoc lt n)
  also have "\<dots> = Finite (of_int (n + q * p))"
    using round64_int [OF i2] by simp
  finally have g1: "spec_subtotal (xs @ [x]) = Finite (sum_list (map exact_line (xs @ [x])))"
    by (simp add: n ex)
  have "sum_list (map exact_line (xs @ [x])) = of_int (n + q * p)"
    by (simp add: n ex)
  then have g2: "\<exists>m. sum_list (map exact_line (xs @ [x])) = of_int m" ..
  have g3: "\<bar>sum_list (map exact_line (xs @ [x]))\<bar>
              \<le> sum_list (map (\<lambda>it. \<bar>exact_line it\<bar>) (xs @ [x]))"
    using absn by simp
  show ?case using g1 g2 g3 by blast
qed

lemma spec_subtotal_exact:
  "small_integer_items its \<Longrightarrow> spec_subtotal its = Finite (sum_list (map exact_line its))"
  by (simp add: spec_subtotal_exact_aux)

lemma small_integer_items_perm:
  assumes "mset its' = mset its" and "small_integer_items its"
  shows "small_integer_items its'"
proof -
  have "set its' = set its" using assms(1) by (rule mset_eq_setD)
  moreover have "sum_list (map (\<lambda>it. \<bar>exact_line it\<bar>) its') = sum_list (map (\<lambda>it. \<bar>exact_line it\<bar>) its)"
    using assms(1) by (metis mset_map sum_mset_sum_list)
  ultimately show ?thesis
    using assms(2) by (simp add: small_integer_items_def list_all_iff)
qed

lemma exact_sum_perm:
  assumes "mset its' = mset its"
  shows "sum_list (map exact_line its') = sum_list (map exact_line its)"
  using assms by (metis mset_map sum_mset_sum_list)

section \<open>Evaluation on the sample data\<close>

text \<open>The numbers of the sample data are doubles: rounding returns them.\<close>

lemma sample_numbers_are_doubles:
  "round64 9007199254740992 = Finite 9007199254740992"
  "round64 (2 ^ 600) = Finite (2 ^ 600)"
  "round64 999 = Finite 999"
proof -
  show "round64 9007199254740992 = Finite 9007199254740992"
    by (simp add: round64_numeral)
  show "round64 (2 ^ 600) = Finite (2 ^ 600)"
    using round64_near [of 600 "2 ^ 600" 4503599627370496] by simp
  show "round64 999 = Finite 999"
    by (simp add: round64_numeral)
qed

lemma fdiv100_10: "fdiv100 (Finite 10) = Finite (3602879701896397 / 36028797018963968)"
  using round64_near [of "- 4" "1 / 10" 7205759403792794] by simp

lemma fmul_20_tenth: "fmul (Finite 20) (Finite (3602879701896397 / 36028797018963968)) = Finite 2"
  using round64_near [of 1 "20 * (3602879701896397 / 36028797018963968)" 4503599627370496] by simp

lemma spec_subtotal_2x10: "spec_subtotal [item_2x10] = Finite 20"
  by (simp add: spec_subtotal_def line_total_def item_2x10_def round64_numeral)

lemma spec_total_20_10: "spec_total (Finite 20) (Finite 10) = Finite 22"
  by (simp add: spec_total_def fdiv100_10 fmul_20_tenth round64_numeral
        del: fdiv100.simps fmul.simps)

lemma fmul_50_tenth: "fmul (Finite 50) (Finite (3602879701896397 / 36028797018963968)) = Finite 5"
  using round64_near [of 2 "50 * (3602879701896397 / 36028797018963968)" 5629499534213120] by simp

lemma spec_subtotal_1x50: "spec_subtotal [item_1x50] = Finite 50"
  by (simp add: spec_subtotal_def line_total_def item_1x50_def round64_numeral)

lemma spec_total_50_10: "spec_total (Finite 50) (Finite 10) = Finite 55"
  by (simp add: spec_total_def fdiv100_10 fmul_50_tenth round64_numeral
        del: fdiv100.simps fmul.simps)

lemma with_items_simps:
  "items (dataValues (with_items its r)) = its"
  "taxRate (dataValues (with_items its r)) = r"
  by (simp_all add: with_items_def)

lemma item_neq: "item_1x50 \<noteq> item_2x10"
  by (simp add: item_1x50_def item_2x10_def)

lemma json_items_samples: "json_items [item_2x10]" "json_items [item_1x50]"
  by (simp_all add: json_items_def item_2x10_def item_1x50_def)

lemma sample_rows_stored:
  "jsonb_row invoice0 = invoice0"
  "jsonb_row invoice1 = invoice1"
  "jsonb_row invoice2 = invoice2"
  "jsonb_row (invoice0\<lparr>subtotal := Finite 999\<rparr>) = invoice0\<lparr>subtotal := Finite 999\<rparr>"
  "jsonb_row (invoice0\<lparr>id_inv := inv_1\<rparr>) = invoice0"
  by (simp_all add: jsonb_row_id invoice0_def invoice1_def invoice2_def json_items_samples)






lemma findOne_example: "Invoice_findOne [invoice0] inv_1 user_1 = Inr (Some invoice0)"
  by (simp add: Invoice_findOne_def sample_ids invoice0_def)

lemma findByPk_single:
  "id_inv row = inv_1 \<Longrightarrow> Invoice_findByPk [row] inv_1 = Inr (Some row)"
  by (simp add: Invoice_findByPk_def sample_ids)

lemma body_update_ok: "\<not> missing_required_fields body_update"
  by (simp add: missing_required_fields_def body_update_def)

section \<open>Dispatch of the route handlers\<close>

lemma id_handler_dispatch:
  assumes "auth req = Authenticated u" and "emailVerified u"
    and "query_id req = QString i" and "i \<noteq> []"
  shows "id_handler st req =
     (case req_method req of
        GET \<Rightarrow> next_getInvoice st i (u_id u)
      | PUT \<Rightarrow> next_updateInvoice st i (u_id u) (req_body req)
      | DELETE \<Rightarrow> next_deleteInvoice st i (u_id u)
      | _ \<Rightarrow> (\<lparr>status = 405, success = False, message = Some ''Method not allowed'',
                data = NoData\<rparr>, st))"
  using assms by (simp add: id_handler_def)

lemma index_handler_dispatch:
  assumes "auth req = Authenticated u" and "emailVerified u"
  shows "index_handler e st req =
     (case req_method req of
        GET \<Rightarrow> (next_getInvoices st (u_id u) (query_page req) (query_limit req), st)
      | POST \<Rightarrow> next_createInvoice e st (u_id u) (req_body req)
      | _ \<Rightarrow> (\<lparr>status = 405, success = False, message = Some ''Method not allowed'',
                data = NoData\<rparr>, st))"
  using assms by (simp add: index_handler_def)

lemma missing_required_fields_items:
  "\<not> missing_required_fields b \<Longrightarrow> items_of (b_items b) \<noteq> []"
  by (simp add: missing_required_fields_def)

section \<open>Totals are recomputed on every write\<close>








section \<open>Update consistency\<close>

lemma spec_subtotal_single_1x50:
  assumes "quantity it = Some (Finite 1)" and "unitPrice it = Some (Finite 50)"
  shows "spec_subtotal [it] = Finite 50"
  using assms by (simp add: spec_subtotal_def line_total_def round64_numeral)

lemma update_items_1x50:
  assumes old: "old \<in> set st" "items old = [it0]" "quantity it0 = Some (Finite 2)"
      "taxRate old = Finite 10"
    and it1: "quantity it1 = Some (Finite 1)" "unitPrice it1 = Some (Finite 50)"
    and a: "a_items a = Some [it1]" "a_taxRate a = None \<or> a_taxRate a = Some (Finite 10)"
    and u: "instance_update st old a = (row', st')"
    and i: "uuid_canon i = Some (id_inv old)"
  shows "Invoice_findByPk st' i = Inr (Some row')" and "items row' = [it1]"
    and "subtotal row' = Finite 50" and "total row' = Finite 55"
proof -
  define ins where "ins = instance_set \<lparr>dataValues = old, changed = {}\<rparr> a"
  have row': "row' = dataValues (beforeUpdate ins)"
    using u by (simp add: instance_update_result ins_def)
  have "it1 \<noteq> it0" using old(3) it1(1) by auto
  then have ch: "''items'' \<in> changed ins"
    using a(1) old(2) by (simp add: ins_def items_in_changed)
  have its: "items (dataValues ins) = [it1]"
    using a(1) by (simp add: ins_def items_instance_set)
  have rate: "taxRate (dataValues ins) = Finite 10"
    using a(2) old(4) by (auto simp add: ins_def taxRate_instance_set)
  show r: "items row' = [it1]"
    using ch its by (simp add: row' beforeUpdate_values)
  have "json_items (items row')"
    using it1 by (simp add: r json_items_def)
  with old(1) u show "Invoice_findByPk st' i = Inr (Some row')"
    using i by (rule instance_update_stored)
  show "subtotal row' = Finite 50"
    using ch its it1 by (simp add: row' beforeUpdate_values spec_subtotal_single_1x50)
  show "total row' = Finite 55"
    using ch its it1 rate
    by (simp add: row' beforeUpdate_values spec_subtotal_single_1x50 spec_total_50_10)
qed

text \<open>
  C2. A stored invoice has items \<open>[{quantity 2, unitPrice 10}]\<close> and tax rate 10. An
  update that changes the items to \<open>[{quantity 1, unitPrice 50}]\<close> and leaves the tax
  rate as it is stores subtotal 50 and total 55, through the update handler of the
  Next.js route and through the one of the Express controller, whatever \<open>subtotal\<close>
  and \<open>total\<close> the body carries.
\<close>

theorem update_consistency:
  assumes "Invoice_findOne st i u = Inr (Some old)"
    and "items old = [it0]" and "quantity it0 = Some (Finite 2)"
    and "unitPrice it0 = Some (Finite 10)"
    and "taxRate old = Finite 10"
    and "quantity it1 = Some (Finite 1)" and "unitPrice it1 = Some (Finite 50)"
  shows "(b_items b = ItemsArray [it1] \<and> (b_taxRate b = None \<or> b_taxRate b = Some (Finite 10)) \<and>
          \<not> missing_required_fields b \<longrightarrow>
            (\<exists>row. Invoice_findByPk (snd (next_updateInvoice st i u b)) i = Inr (Some row) \<and>
               data (fst (next_updateInvoice st i u b)) = InvoiceData row \<and>
               items row = [it1] \<and> subtotal row = Finite 50 \<and> total row = Finite 55)) \<and>
         (a_items a = Some [it1] \<and> (a_taxRate a = None \<or> a_taxRate a = Some (Finite 10)) \<longrightarrow>
            (\<exists>row. Invoice_findByPk (snd (express_updateInvoice st i u a)) i = Inr (Some row) \<and>
               data (fst (express_updateInvoice st i u a)) = InvoiceData row \<and>
               items row = [it1] \<and> subtotal row = Finite 50 \<and> total row = Finite 55))"
proof (intro conjI impI)
  note o = findOne_SomeD [OF assms(1)]
  assume h: "b_items b = ItemsArray [it1] \<and>
    (b_taxRate b = None \<or> b_taxRate b = Some (Finite 10)) \<and> \<not> missing_required_fields b"
  define a' where "a' =
    \<lparr>a_id = None, a_invoiceNumber = b_invoiceNumber b, a_invoiceDate = b_invoiceDate b,
     a_dueDate = b_dueDate b, a_logoUrl = b_logoUrl b, a_sender = b_sender b,
     a_recipient = b_recipient b, a_items = Some (items_of (b_items b)),
     a_currency = b_currency b, a_taxRate = b_taxRate b, a_subtotal = None,
     a_total = None, a_UserId = None\<rparr>"
  obtain row' st' where u: "instance_update st old a' = (row', st')"
    by (cases "instance_update st old a'") simp
  have n: "next_updateInvoice st i u b =
             (handleSuccess (InvoiceData row') ''Invoice updated successfully'' 200, st')"
    using h u by (simp add: next_updateInvoice_def assms(1) a'_def)
  have "a_items a' = Some [it1]" "a_taxRate a' = None \<or> a_taxRate a' = Some (Finite 10)"
    using h by (simp_all add: a'_def)
  from update_items_1x50 [OF o(1) assms(2,3,5,6,7) this u o(2)]
  show "\<exists>row. Invoice_findByPk (snd (next_updateInvoice st i u b)) i = Inr (Some row) \<and>
            data (fst (next_updateInvoice st i u b)) = InvoiceData row \<and>
            items row = [it1] \<and> subtotal row = Finite 50 \<and> total row = Finite 55"
    by (simp add: n handleSuccess_def)
next
  note o = findOne_SomeD [OF assms(1)]
  assume h: "a_items a = Some [it1] \<and> (a_taxRate a = None \<or> a_taxRate a = Some (Finite 10))"
  obtain row' st' where u: "instance_update st old a = (row', st')"
    by (cases "instance_update st old a") simp
  have "a_items a = Some [it1]" "a_taxRate a = None \<or> a_taxRate a = Some (Finite 10)"
    using h by simp_all
  note r = update_items_1x50 [OF o(1) assms(2,3,5,6,7) this u o(2)]
  have "express_updateInvoice st i u a =
          (\<lparr>status = 200, success = True, message = None, data = InvoiceData row'\<rparr>, st')"
    using u r(1) by (simp add: express_updateInvoice_def assms(1))
  then show "\<exists>row. Invoice_findByPk (snd (express_updateInvoice st i u a)) i = Inr (Some row) \<and>
            data (fst (express_updateInvoice st i u a)) = InvoiceData row \<and>
            items row = [it1] \<and> subtotal row = Finite 50 \<and> total row = Finite 55"
    using r by simp
qed

theorem update_consistency_witness:
  "Invoice_findOne [invoice0] inv_1 user_1 = Inr (Some invoice0) \<and>
   items invoice0 = [item_2x10] \<and> quantity item_2x10 = Some (Finite 2) \<and>
   unitPrice item_2x10 = Some (Finite 10) \<and> taxRate invoice0 = Finite 10 \<and>
   quantity item_1x50 = Some (Finite 1) \<and> unitPrice item_1x50 = Some (Finite 50) \<and>
   b_items body_update = ItemsArray [item_1x50] \<and> b_taxRate body_update = None \<and>
   b_subtotal body_update = Some (Finite 999) \<and> \<not> missing_required_fields body_update \<and>
   (\<exists>row. Invoice_findByPk (snd (next_updateInvoice [invoice0] inv_1 user_1 body_update))
             inv_1 = Inr (Some row) \<and>
      data (fst (next_updateInvoice [invoice0] inv_1 user_1 body_update)) = InvoiceData row \<and>
      items row = [item_1x50] \<and> subtotal row = Finite 50 \<and> total row = Finite 55) \<and>
   a_items attrs_update = Some [item_1x50] \<and> a_taxRate attrs_update = None \<and>
   a_subtotal attrs_update = Some (Finite 999) \<and>
   (\<exists>row. Invoice_findByPk (snd (express_updateInvoice [invoice0] inv_1 user_1 attrs_update))
             inv_1 = Inr (Some row) \<and>
      data (fst (express_updateInvoice [invoice0] inv_1 user_1 attrs_update)) = InvoiceData row \<and>
      items row = [item_1x50] \<and> subtotal row = Finite 50 \<and> total row = Finite 55)"
proof -
  have f: "items invoice0 = [item_2x10]" "quantity item_2x10 = Some (Finite 2)"
    "unitPrice item_2x10 = Some (Finite 10)" "taxRate invoice0 = Finite 10"
    "quantity item_1x50 = Some (Finite 1)" "unitPrice item_1x50 = Some (Finite 50)"
    by (simp_all add: invoice0_def item_2x10_def item_1x50_def)
  have g: "b_items body_update = ItemsArray [item_1x50]" "b_taxRate body_update = None"
    "b_subtotal body_update = Some (Finite 999)"
    "a_items attrs_update = Some [item_1x50]" "a_taxRate attrs_update = None"
    "a_subtotal attrs_update = Some (Finite 999)"
    by (simp_all add: body_update_def attrs_update_def no_attrs_def)
  show ?thesis
    using update_consistency [OF findOne_example f, of body_update attrs_update]
      findOne_example f g body_update_ok
    by simp
qed

section \<open>Updates that carry neither items nor tax rate\<close>

text \<open>
  The hook leaves the totals alone when neither \<open>items\<close> nor \<open>taxRate\<close> is in
  the payload; they stay as stored when the payload does not hold them either.
\<close>

lemma update_without_totals:
  assumes "a_items a = None" and "a_taxRate a = None"
    and "a_subtotal a = None" and "a_total a = None"
    and "instance_update st old a = (row', st')"
  shows "subtotal row' = subtotal old \<and> total row' = total old"
proof -
  define ins where "ins = instance_set \<lparr>dataValues = old, changed = {}\<rparr> a"
  have "\<not> (''items'' \<in> changed ins \<or> ''taxRate'' \<in> changed ins)"
    using assms(1,2) by (simp add: ins_def items_in_changed taxRate_in_changed)
  moreover have "row' = dataValues (beforeUpdate ins)"
    using assms(5) by (simp add: instance_update_result ins_def)
  ultimately show ?thesis
    using assms(3,4)
    by (simp add: beforeUpdate_values ins_def subtotal_instance_set total_instance_set)
qed

text \<open>
  C3. The claim: an update whose attributes hold neither \<open>items\<close> nor \<open>taxRate\<close>
  leaves the stored \<open>subtotal\<close> and \<open>total\<close> as they were, whatever else the
  payload carries. The update handler of the Express controller hands the body to the
  ORM as it is: with the body \<open>{subtotal: 999}\<close> the stored subtotal of an invoice
  whose items add up to 20 becomes 999.
\<close>

theorem express_update_stores_supplied_subtotal:
  "a_items attrs_only_subtotal = None \<and> a_taxRate attrs_only_subtotal = None \<and>
   Invoice_findByPk [invoice0] inv_1 = Inr (Some invoice0) \<and> subtotal invoice0 = Finite 20 \<and>
   snd (express_updateInvoice [invoice0] inv_1 user_1 attrs_only_subtotal)
     = [invoice0\<lparr>subtotal := Finite 999\<rparr>]"
proof -
  have "dataValues (beforeUpdate
           (instance_set \<lparr>dataValues = invoice0, changed = {}\<rparr> attrs_only_subtotal))
          = invoice0\<lparr>subtotal := Finite 999\<rparr>"
    by (simp add: beforeUpdate_def instance_set_def set_key_def Let_def
          attrs_only_subtotal_def no_attrs_def)
  then have u: "instance_update [invoice0] invoice0 attrs_only_subtotal =
             (invoice0\<lparr>subtotal := Finite 999\<rparr>, [invoice0\<lparr>subtotal := Finite 999\<rparr>])"
    by (simp add: instance_update_result sample_rows_stored)
  have k: "id_inv (invoice0\<lparr>subtotal := Finite 999\<rparr>) = inv_1" "id_inv invoice0 = inv_1"
    by (simp_all add: invoice0_def)
  have "snd (express_updateInvoice [invoice0] inv_1 user_1 attrs_only_subtotal)
          = [invoice0\<lparr>subtotal := Finite 999\<rparr>]"
    by (simp add: express_updateInvoice_def findOne_example u findByPk_single k)
  moreover have "Invoice_findByPk [invoice0] inv_1 = Inr (Some invoice0)"
    using k(2) by (rule findByPk_single)
  moreover have "subtotal invoice0 = Finite 20"
    by (simp add: invoice0_def)
  moreover have "a_items attrs_only_subtotal = None" "a_taxRate attrs_only_subtotal = None"
    by (simp_all add: attrs_only_subtotal_def no_attrs_def)
  ultimately show ?thesis by simp
qed

section \<open>Empty items\<close>

text \<open>
  C4. The claim: over the empty sequence of items the subtotal and the total are 0 for
  every tax rate. A tax rate read from the JSON number \<open>1e999\<close> is \<open>+Infinity\<close>,
  and then the total is \<open>0 + 0 * Infinity = NaN\<close>. For every finite tax rate (every
  finite double is below \<open>2^1024\<close> in magnitude) the claim holds.
\<close>

theorem empty_items_finite_rate:
  assumes "items (dataValues ins) = []" and "taxRate (dataValues ins) = Finite r"
    and "\<bar>r\<bar> < 2 powi 1024"
  shows "subtotal (dataValues (beforeCreate ins)) = Finite 0 \<and>
         total (dataValues (beforeCreate ins)) = Finite 0"
  using assms by (simp add: subtotal_beforeCreate total_beforeCreate spec_subtotal_Nil spec_total_empty)

theorem empty_items_finite_rate_witness:
  "items (dataValues (with_items [] (Finite 8))) = [] \<and>
   taxRate (dataValues (with_items [] (Finite 8))) = Finite 8 \<and> \<bar>8 :: rat\<bar> < 2 powi 1024 \<and>
   subtotal (dataValues (beforeCreate (with_items [] (Finite 8)))) = Finite 0 \<and>
   total (dataValues (beforeCreate (with_items [] (Finite 8)))) = Finite 0"
  using empty_items_finite_rate [of "with_items [] (Finite 8)" 8]
  by (simp add: with_items_simps)

theorem empty_items_infinite_rate_counterexample:
  "items (dataValues (with_items [] PInf)) = [] \<and>
   total (dataValues (beforeCreate (with_items [] PInf))) = NaN \<and>
   total (dataValues (beforeCreate (with_items [] PInf))) \<noteq> Finite 0"
  by (simp add: with_items_simps total_beforeCreate spec_subtotal_Nil spec_total_def)

section \<open>The subtotal and the order of the items\<close>

lemma round64_2p53_plus_1: "round64 9007199254740993 = Finite 9007199254740992"
  using round64_tie [of 53 9007199254740993 4503599627370496] by simp

lemma round64_2p53_plus_2: "round64 9007199254740994 = Finite 9007199254740994"
  using round64_near [of 53 9007199254740994 4503599627370497] by simp

lemma spec_subtotal_big_first: "spec_subtotal items_big_first = Finite 9007199254740992"
  by (simp add: spec_subtotal_def line_total_def items_big_first_def line_def
        round64_numeral round64_one round64_2p53_plus_1)

lemma spec_subtotal_big_last: "spec_subtotal items_big_last = Finite 9007199254740994"
  by (simp add: spec_subtotal_def line_total_def items_big_last_def line_def
        round64_numeral round64_one round64_2p53_plus_2)

text \<open>
  C5. The claim: the subtotal is the sum of \<open>quantity * unitPrice\<close> over the items, and
  no reordering of the items changes it. The first half holds with the sum taken from
  left to right in double arithmetic. The second half fails, since that addition is not
  associative: \<open>2^53 + 1 + 1\<close> is \<open>2^53\<close>, and \<open>1 + 1 + 2^53\<close> is \<open>2^53 + 2\<close>.
  It holds whenever no addition rounds, in particular when all quantities and prices are
  integers and the absolute line totals add up to at most \<open>2^53\<close>: then the subtotal
  is the exact sum.
\<close>

theorem subtotal_sum_and_order:
  "subtotal (dataValues (beforeCreate ins)) = spec_subtotal (items (dataValues ins)) \<and>
   (small_integer_items (items (dataValues ins)) \<and>
    mset (items (dataValues ins')) = mset (items (dataValues ins)) \<longrightarrow>
      subtotal (dataValues (beforeCreate ins)) =
        Finite (sum_list (map exact_line (items (dataValues ins)))) \<and>
      subtotal (dataValues (beforeCreate ins')) = subtotal (dataValues (beforeCreate ins)))"
proof (intro conjI impI)
  show "subtotal (dataValues (beforeCreate ins)) = spec_subtotal (items (dataValues ins))"
    by (rule subtotal_beforeCreate)
next
  assume h: "small_integer_items (items (dataValues ins)) \<and>
    mset (items (dataValues ins')) = mset (items (dataValues ins))"
  then have s: "small_integer_items (items (dataValues ins))"
    and m: "mset (items (dataValues ins')) = mset (items (dataValues ins))"
    by simp_all
  have s': "small_integer_items (items (dataValues ins'))"
    using m s by (rule small_integer_items_perm)
  show "subtotal (dataValues (beforeCreate ins)) =
          Finite (sum_list (map exact_line (items (dataValues ins))))"
    using s by (simp add: subtotal_beforeCreate spec_subtotal_exact)
  show "subtotal (dataValues (beforeCreate ins')) = subtotal (dataValues (beforeCreate ins))"
    using s s' exact_sum_perm [OF m] by (simp add: subtotal_beforeCreate spec_subtotal_exact)
qed

lemma small_integer_items_A_B: "small_integer_items items_A_B"
  by (simp add: small_integer_items_def items_A_B_def exact_line_def)

theorem subtotal_sum_and_order_witness:
  "small_integer_items items_A_B \<and> mset (rev items_A_B) = mset items_A_B \<and>
   subtotal (dataValues (beforeCreate (with_items items_A_B (Finite 8)))) = Finite 75 \<and>
   subtotal (dataValues (beforeCreate (with_items (rev items_A_B) (Finite 8)))) =
     subtotal (dataValues (beforeCreate (with_items items_A_B (Finite 8))))"
proof -
  have e: "sum_list (map exact_line items_A_B) = 75"
    by (simp add: items_A_B_def exact_line_def)
  have h: "small_integer_items items_A_B \<and> mset (rev items_A_B) = mset items_A_B"
    by (simp add: small_integer_items_A_B)
  have "small_integer_items items_A_B \<and> mset (rev items_A_B) = mset items_A_B \<longrightarrow>
        subtotal (dataValues (beforeCreate (with_items items_A_B (Finite 8)))) =
          Finite (sum_list (map exact_line items_A_B)) \<and>
        subtotal (dataValues (beforeCreate (with_items (rev items_A_B) (Finite 8)))) =
          subtotal (dataValues (beforeCreate (with_items items_A_B (Finite 8))))"
    using subtotal_sum_and_order [of "with_items items_A_B (Finite 8)"
        "with_items (rev items_A_B) (Finite 8)"]
    unfolding with_items_simps by (rule conjunct2)
  then show ?thesis
    using h e by simp
qed

theorem subtotal_order_counterexample:
  "mset items_big_last = mset items_big_first \<and>
   subtotal (dataValues (beforeCreate (with_items items_big_first (Finite 0)))) =
     Finite 9007199254740992 \<and>
   subtotal (dataValues (beforeCreate (with_items items_big_last (Finite 0)))) =
     Finite 9007199254740994 \<and>
   subtotal (dataValues (beforeCreate (with_items items_big_last (Finite 0)))) \<noteq>
     subtotal (dataValues (beforeCreate (with_items items_big_first (Finite 0))))"
  by (simp add: subtotal_beforeCreate with_items_simps spec_subtotal_big_first
        spec_subtotal_big_last)
    (simp add: items_big_first_def items_big_last_def)

section \<open>Tax scaling\<close>

lemma fmul_3_tenth:
  "fmul (Finite 3) (Finite (3602879701896397 / 36028797018963968)) =
     Finite (1351079888211149 / 4503599627370496)"
  using round64_tie_odd [of "- 2" "3 * (3602879701896397 / 36028797018963968)" 5404319552844595]
  by simp

lemma fadd_3_tax:
  "fadd (Finite 3) (Finite (1351079888211149 / 4503599627370496)) =
     Finite (3715469692580659 / 1125899906842624)"
  using round64_tie [of 1 "3 + 1351079888211149 / 4503599627370496" 7430939385161318]
  by simp

lemma fadd_1_tenth:
  "fadd (Finite 1) (Finite (3602879701896397 / 36028797018963968)) =
     Finite (2476979795053773 / 2251799813685248)"
  using round64_near [of 0 "1 + 3602879701896397 / 36028797018963968" 4953959590107546]
  by simp

lemma fmul_3_factor:
  "fmul (Finite 3) (Finite (2476979795053773 / 2251799813685248)) =
     Finite (7430939385161319 / 2251799813685248)"
  using round64_near [of 1 "3 * (2476979795053773 / 2251799813685248)" 7430939385161319]
  by simp

lemma spec_subtotal_3x1: "spec_subtotal items_3x1 = Finite 3"
  by (simp add: spec_subtotal_def line_total_def items_3x1_def line_def round64_numeral)

text \<open>
  C6. The claim: for every tax rate \<open>r \<ge> 0\<close> the total equals
  \<open>subtotal * (1 + r / 100)\<close> in double arithmetic. The hook computes
  \<open>subtotal + subtotal * (r / 100)\<close>, which rounds at other places: for one item of
  quantity 3 at price 1 and a rate of 10 the total is \<open>3.3\<close> (the double next to it),
  whereas \<open>3 * (1 + 10 / 100)\<close> evaluates to \<open>3.3000000000000003\<close>, and neither is
  the rational \<open>33/10\<close>. What holds for every item sequence and every rate is the
  formula as the hook has it, each operation rounded.
\<close>

theorem total_is_subtotal_plus_tax:
  "total (dataValues (beforeCreate ins)) =
     fadd (subtotal (dataValues (beforeCreate ins)))
       (fmul (subtotal (dataValues (beforeCreate ins))) (fdiv100 (taxRate (dataValues ins))))"
  by (simp add: beforeCreate_values spec_total_def)

theorem tax_scaling_counterexample:
  "subtotal (dataValues (beforeCreate (with_items items_3x1 (Finite 10)))) = Finite 3 \<and>
   total (dataValues (beforeCreate (with_items items_3x1 (Finite 10)))) =
     Finite (3715469692580659 / 1125899906842624) \<and>
   fmul (Finite 3) (fadd (Finite 1) (fdiv100 (Finite 10))) =
     Finite (7430939385161319 / 2251799813685248) \<and>
   total (dataValues (beforeCreate (with_items items_3x1 (Finite 10)))) \<noteq>
     fmul (subtotal (dataValues (beforeCreate (with_items items_3x1 (Finite 10)))))
       (fadd (Finite 1) (fdiv100 (Finite 10))) \<and>
   total (dataValues (beforeCreate (with_items items_3x1 (Finite 10)))) \<noteq>
     Finite (3 * (1 + 10 / 100))"
  by (simp add: subtotal_beforeCreate total_beforeCreate with_items_simps spec_subtotal_3x1
        spec_total_def fdiv100_10 fmul_3_tenth fadd_3_tax fadd_1_tenth fmul_3_factor
        del: fdiv100.simps fmul.simps fadd.simps)

section \<open>The concrete scenario\<close>

lemma fdiv100_8: "fdiv100 (Finite 8) = Finite (5764607523034235 / 72057594037927936)"
  using round64_near [of "- 4" "2 / 25" 5764607523034235] by simp

lemma fmul_75_rate:
  "fmul (Finite 75) (Finite (5764607523034235 / 72057594037927936)) = Finite 6"
  using round64_near [of 2 "75 * (5764607523034235 / 72057594037927936)" 6755399441055744]
  by simp

text \<open>
  C7. Items A (quantity 3, unit price 20) and B (quantity 1, unit price 15) with a tax
  rate of 8 give subtotal 75 and total 81: \<open>8 / 100\<close> and \<open>75 * 0.08\<close> both round,
  the second to exactly 6.
\<close>

theorem concrete_scenario:
  assumes "items (dataValues ins) = [itA, itB]"
    and "description itA = ''A''" and "quantity itA = Some (Finite 3)"
    and "unitPrice itA = Some (Finite 20)"
    and "description itB = ''B''" and "quantity itB = Some (Finite 1)"
    and "unitPrice itB = Some (Finite 15)"
    and "taxRate (dataValues ins) = Finite 8"
  shows "subtotal (dataValues (beforeCreate ins)) = Finite 75 \<and>
         total (dataValues (beforeCreate ins)) = Finite 81"
proof -
  have s: "spec_subtotal [itA, itB] = Finite 75"
    using assms by (simp add: spec_subtotal_def line_total_def round64_numeral)
  have t: "spec_total (Finite 75) (Finite 8) = Finite 81"
    by (simp add: spec_total_def fdiv100_8 fmul_75_rate round64_numeral
          del: fdiv100.simps fmul.simps)
  show ?thesis
    using assms(1,8) s t by (simp add: subtotal_beforeCreate total_beforeCreate)
qed

theorem concrete_scenario_witness:
  "items (dataValues (with_items items_A_B (Finite 8))) = items_A_B \<and>
   items_A_B = [items_A_B ! 0, items_A_B ! 1] \<and>
   description (items_A_B ! 0) = ''A'' \<and> quantity (items_A_B ! 0) = Some (Finite 3) \<and>
   unitPrice (items_A_B ! 0) = Some (Finite 20) \<and>
   description (items_A_B ! 1) = ''B'' \<and> quantity (items_A_B ! 1) = Some (Finite 1) \<and>
   unitPrice (items_A_B ! 1) = Some (Finite 15) \<and>
   taxRate (dataValues (with_items items_A_B (Finite 8))) = Finite 8 \<and>
   subtotal (dataValues (beforeCreate (with_items items_A_B (Finite 8)))) = Finite 75 \<and>
   total (dataValues (beforeCreate (with_items items_A_B (Finite 8)))) = Finite 81"
proof -
  have i: "items_A_B = [items_A_B ! 0, items_A_B ! 1]"
    by (simp add: items_A_B_def)
  have f: "description (items_A_B ! 0) = ''A''" "quantity (items_A_B ! 0) = Some (Finite 3)"
    "unitPrice (items_A_B ! 0) = Some (Finite 20)"
    "description (items_A_B ! 1) = ''B''" "quantity (items_A_B ! 1) = Some (Finite 1)"
    "unitPrice (items_A_B ! 1) = Some (Finite 15)"
    by (simp_all add: items_A_B_def)
  have "items (dataValues (with_items items_A_B (Finite 8))) = [items_A_B ! 0, items_A_B ! 1]"
    using i by (simp add: with_items_simps)
  from concrete_scenario [OF this f with_items_simps(2)]
  show ?thesis
    using i f by (simp add: with_items_simps)
qed

section \<open>Zero tax\<close>

lemma spec_subtotal_overflow: "spec_subtotal items_overflow = PInf"
proof -
  have "round64 (2 ^ 600 * 2 ^ 600) = PInf"
    by (rule round64_overflow) simp
  then show ?thesis
    by (simp add: spec_subtotal_def line_total_def items_overflow_def line_def)
qed

text \<open>
  C8. The claim: with a tax rate of 0 the total equals the subtotal, for every item
  sequence. When the subtotal overflows (one item of quantity \<open>2^600\<close> at price
  \<open>2^600\<close>) it is \<open>+Infinity\<close>, the tax amount \<open>Infinity * 0\<close> is NaN, and so is
  the total. For every item sequence whose subtotal is finite the claim holds.
\<close>

theorem zero_tax_finite_subtotal:
  assumes "taxRate (dataValues ins) = Finite 0"
    and "subtotal (dataValues (beforeCreate ins)) = Finite s"
  shows "total (dataValues (beforeCreate ins)) = subtotal (dataValues (beforeCreate ins))"
proof -
  have "spec_subtotal (items (dataValues ins)) = Finite s"
    using assms(2) by (simp add: subtotal_beforeCreate)
  then show ?thesis
    using assms(1) spec_subtotal_rounded [of "items (dataValues ins)" s]
    by (simp add: subtotal_beforeCreate total_beforeCreate spec_total_zero_rate)
qed

theorem zero_tax_finite_subtotal_witness:
  "taxRate (dataValues (with_items items_A_B (Finite 0))) = Finite 0 \<and>
   subtotal (dataValues (beforeCreate (with_items items_A_B (Finite 0)))) = Finite 75 \<and>
   total (dataValues (beforeCreate (with_items items_A_B (Finite 0)))) =
     subtotal (dataValues (beforeCreate (with_items items_A_B (Finite 0))))"
proof -
  have s: "subtotal (dataValues (beforeCreate (with_items items_A_B (Finite 0)))) = Finite 75"
    by (simp add: subtotal_beforeCreate with_items_simps spec_subtotal_def line_total_def
          items_A_B_def round64_numeral)
  from zero_tax_finite_subtotal [OF with_items_simps(2) s]
  show ?thesis
    using s by (simp add: with_items_simps)
qed

theorem zero_tax_overflow_counterexample:
  "taxRate (dataValues (with_items items_overflow (Finite 0))) = Finite 0 \<and>
   subtotal (dataValues (beforeCreate (with_items items_overflow (Finite 0)))) = PInf \<and>
   total (dataValues (beforeCreate (with_items items_overflow (Finite 0)))) = NaN \<and>
   total (dataValues (beforeCreate (with_items items_overflow (Finite 0)))) \<noteq>
     subtotal (dataValues (beforeCreate (with_items items_overflow (Finite 0))))"
  by (simp add: subtotal_beforeCreate total_beforeCreate with_items_simps
        spec_subtotal_overflow spec_total_def round64_zero)

section \<open>Validation of the request body\<close>

lemma next_createInvoice_new_rows:
  "\<forall>r\<in>set (snd (next_createInvoice e st uid b)). r \<notin> set st \<longrightarrow> items r \<noteq> []"
proof (cases "missing_required_fields b")
  case True
  then show ?thesis by (simp add: next_createInvoice_def)
next
  case False
  define a where "a =
    \<lparr>a_id = None, a_invoiceNumber = b_invoiceNumber b, a_invoiceDate = b_invoiceDate b,
     a_dueDate = b_dueDate b, a_logoUrl = b_logoUrl b, a_sender = b_sender b,
     a_recipient = b_recipient b, a_items = Some (items_of (b_items b)),
     a_currency = Some (case b_currency b of None \<Rightarrow> ''USD''
                        | Some c \<Rightarrow> if c = [] then ''USD'' else c),
     a_taxRate = Some (case b_taxRate b of None \<Rightarrow> Finite 0
                       | Some t \<Rightarrow> if truthy_number t then t else Finite 0),
     a_subtotal = None, a_total = None, a_UserId = Some uid\<rparr>"
  have n: "next_createInvoice e st uid b =
     (case Invoice_create e st a of
        Inl err \<Rightarrow> (handleError err, st)
      | Inr (invoice, st') \<Rightarrow>
          (handleSuccess (InvoiceData invoice) ''Invoice created successfully'' 201, st'))"
    using False by (simp add: next_createInvoice_def a_def)
  show ?thesis
  proof (cases "Invoice_create e st a")
    case (Inl err)
    then show ?thesis by (simp add: n)
  next
    case (Inr p)
    obtain row st' where p: "p = (row, st')" by (cases p)
    note f = Invoice_create_row [OF Inr [unfolded p]]
    have "items row = items (jsonb_row ((dataValues (beforeCreate (Invoice_build e a)))
            \<lparr>id_inv := id_inv row\<rparr>))"
      using f(3) by (rule arg_cong)
    then have "items row = map jsonb_item (items_of (b_items b))"
      by (simp add: jsonb_row_simps items_beforeCreate items_Invoice_build a_def)
    then have "items row \<noteq> []"
      using False by (simp add: missing_required_fields_items)
    then show ?thesis
      by (auto simp add: n Inr p f(1))
  qed
qed

lemma next_updateInvoice_new_rows:
  "\<forall>r\<in>set (snd (next_updateInvoice st i uid b)). r \<notin> set st \<longrightarrow> items r \<noteq> []"
proof (cases "Invoice_findOne st i uid")
  case (Inl err)
  then show ?thesis by (simp add: next_updateInvoice_def)
next
  case (Inr found)
  show ?thesis
  proof (cases found)
    case None
    then show ?thesis by (simp add: next_updateInvoice_def Inr)
  next
    case (Some old)
    show ?thesis
    proof (cases "missing_required_fields b")
      case True
      then show ?thesis by (simp add: next_updateInvoice_def Inr Some)
    next
      case False
      define a where "a =
        \<lparr>a_id = None, a_invoiceNumber = b_invoiceNumber b, a_invoiceDate = b_invoiceDate b,
         a_dueDate = b_dueDate b, a_logoUrl = b_logoUrl b, a_sender = b_sender b,
         a_recipient = b_recipient b, a_items = Some (items_of (b_items b)),
         a_currency = b_currency b, a_taxRate = b_taxRate b, a_subtotal = None,
         a_total = None, a_UserId = None\<rparr>"
      define row' where
        "row' = dataValues (beforeUpdate (instance_set \<lparr>dataValues = old, changed = {}\<rparr> a))"
      have n: "snd (next_updateInvoice st i uid b) =
                 map (\<lambda>r. if id_inv r = id_inv old then jsonb_row row' else r) st"
        using False
        by (simp add: next_updateInvoice_def Inr Some instance_update_result a_def row'_def)
      have "items (jsonb_row row') = map jsonb_item (items_of (b_items b))"
        by (simp add: jsonb_row_simps row'_def items_beforeUpdate items_instance_set a_def)
      then have "items (jsonb_row row') \<noteq> []"
        using False by (simp add: missing_required_fields_items)
      then show ?thesis
        unfolding n by auto
    qed
  qed
qed

lemma next_deleteInvoice_rows: "set (snd (next_deleteInvoice st i uid)) \<subseteq> set st"
  by (auto simp add: next_deleteInvoice_def instance_destroy_def split: sum.splits option.splits)

lemma next_getInvoice_rows: "snd (next_getInvoice st i uid) = st"
  by (simp add: next_getInvoice_def split: sum.splits option.splits)

lemma index_handler_new_rows:
  "\<forall>r\<in>set (snd (index_handler e st req)). r \<notin> set st \<longrightarrow> items r \<noteq> []"
proof (cases "auth req")
  case (Authenticated u)
  show ?thesis
  proof (cases "emailVerified u")
    case True
    show ?thesis
      using next_createInvoice_new_rows [of e st "u_id u" "req_body req"]
      by (cases "req_method req")
        (simp_all add: index_handler_dispatch [OF Authenticated True])
  next
    case False
    then show ?thesis by (simp add: index_handler_def Authenticated)
  qed
qed (simp_all add: index_handler_def)

lemma id_handler_new_rows:
  "\<forall>r\<in>set (snd (id_handler st req)). r \<notin> set st \<longrightarrow> items r \<noteq> []"
proof (cases "auth req")
  case (Authenticated u)
  show ?thesis
  proof (cases "emailVerified u")
    case True
    show ?thesis
    proof (cases "query_id req")
      case (QString i)
      show ?thesis
      proof (cases "i = []")
        case True
        then show ?thesis
          by (simp add: id_handler_def Authenticated \<open>emailVerified u\<close> QString)
      next
        case False
        show ?thesis
          using next_updateInvoice_new_rows [of st i "u_id u" "req_body req"]
            next_deleteInvoice_rows [of st i "u_id u"] next_getInvoice_rows [of st i "u_id u"]
          by (cases "req_method req")
            (auto simp add: id_handler_dispatch [OF Authenticated True QString False])
      qed
    qed (simp_all add: id_handler_def Authenticated True)
  next
    case False
    then show ?thesis by (simp add: id_handler_def Authenticated)
  qed
qed (simp_all add: id_handler_def)

text \<open>
  C9. The claim: every POST on \<open>/api/invoices\<close> and every PUT on
  \<open>/api/invoices/:id\<close> whose body lacks \<open>invoiceDate\<close>, \<open>sender\<close> or
  \<open>recipient\<close>, or whose \<open>items\<close> are absent, not an array or an empty array, is
  answered with 400 \<open>Missing required fields\<close> and creates or changes no invoice, so
  that no invoice with an empty list of items comes out of these two routes. The
  handlers authenticate first, and the PUT handler looks the invoice up before it
  checks the body: such a PUT for an invoice the user does not own is answered with
  404. For a user who is authenticated and verified (and, for PUT, an invoice of that
  user under the id) the answer is 400 and the table is as before; and whatever the
  request, every row that a call of either handler adds or rewrites has a non-empty
  list of items.
\<close>

theorem missing_fields_rejected:
  "(auth req = Authenticated u \<and> emailVerified u \<and> req_method req = POST \<and>
    missing_required_fields (req_body req) \<longrightarrow>
      index_handler e st req =
        (\<lparr>status = 400, success = False, message = Some ''Missing required fields'',
          data = NoData\<rparr>, st)) \<and>
   (auth req' = Authenticated u' \<and> emailVerified u' \<and> req_method req' = PUT \<and>
    query_id req' = QString i \<and> i \<noteq> [] \<and> Invoice_findOne st' i (u_id u') = Inr (Some old) \<and>
    missing_required_fields (req_body req') \<longrightarrow>
      id_handler st' req' =
        (\<lparr>status = 400, success = False, message = Some ''Missing required fields'',
          data = NoData\<rparr>, st')) \<and>
   (\<forall>r\<in>set (snd (index_handler e2 st2 req2)). r \<notin> set st2 \<longrightarrow> items r \<noteq> []) \<and>
   (\<forall>r\<in>set (snd (id_handler st3 req3)). r \<notin> set st3 \<longrightarrow> items r \<noteq> [])"
proof (intro conjI impI)
  assume h: "auth req = Authenticated u \<and> emailVerified u \<and> req_method req = POST \<and>
    missing_required_fields (req_body req)"
  then have a: "auth req = Authenticated u" and v: "emailVerified u" by simp_all
  show "index_handler e st req =
        (\<lparr>status = 400, success = False, message = Some ''Missing required fields'',
          data = NoData\<rparr>, st)"
    using h
    by (simp add: index_handler_dispatch [OF a v] next_createInvoice_def
          missing_fields_response_def)
next
  assume h: "auth req' = Authenticated u' \<and> emailVerified u' \<and> req_method req' = PUT \<and>
    query_id req' = QString i \<and> i \<noteq> [] \<and> Invoice_findOne st' i (u_id u') = Inr (Some old) \<and>
    missing_required_fields (req_body req')"
  then have a: "auth req' = Authenticated u'" and v: "emailVerified u'"
    and q: "query_id req' = QString i" and ne: "i \<noteq> []" by simp_all
  show "id_handler st' req' =
        (\<lparr>status = 400, success = False, message = Some ''Missing required fields'',
          data = NoData\<rparr>, st')"
    using h
    by (simp add: id_handler_dispatch [OF a v q ne] next_updateInvoice_def
          missing_fields_response_def)
next
  show "\<forall>r\<in>set (snd (index_handler e2 st2 req2)). r \<notin> set st2 \<longrightarrow> items r \<noteq> []"
    by (rule index_handler_new_rows)
  show "\<forall>r\<in>set (snd (id_handler st3 req3)). r \<notin> set st3 \<longrightarrow> items r \<noteq> []"
    by (rule id_handler_new_rows)
qed

lemma missing_empty_body: "missing_required_fields empty_body"
  by (simp add: missing_required_fields_def empty_body_def)

lemma next_create_example:
  "next_createInvoice env0 [] user_1 body_create =
     (handleSuccess (InvoiceData invoice0) ''Invoice created successfully'' 201, [invoice0])"
proof -
  define a where "a = attrs_create
        \<lparr>a_invoiceDate := Some ''2024-01-01'', a_sender := Some empty_address,
         a_recipient := Some empty_address, a_currency := Some ''USD'',
         a_subtotal := None, a_total := None\<rparr>"
  have "\<not> missing_required_fields body_create"
    by (simp add: missing_required_fields_def body_create_def)
  moreover have
    "\<lparr>a_id = None, a_invoiceNumber = None, a_invoiceDate = Some ''2024-01-01'',
      a_dueDate = None, a_logoUrl = None, a_sender = Some empty_address,
      a_recipient = Some empty_address, a_items = Some [item_2x10],
      a_currency = Some ''USD'', a_taxRate = Some (Finite 10), a_subtotal = None,
      a_total = None, a_UserId = Some user_1\<rparr> = a"
    by (simp add: a_def attrs_create_def no_attrs_def)
  moreover have "Invoice_create env0 [] a = Inr (invoice0, [invoice0])"
  proof -
    have "dataValues (beforeCreate (Invoice_build env0 a)) = invoice0"
      by (simp add: a_def Invoice_build_def attrs_create_def no_attrs_def env0_def
            beforeCreate_values instance_set_def set_key_def Let_def invoice0_def
            spec_subtotal_2x10 spec_total_20_10)
    moreover have "a_UserId a = Some user_1"
      by (simp add: a_def attrs_create_def)
    moreover have "id_inv invoice0 = inv_1"
      by (simp add: invoice0_def)
    ultimately show ?thesis
      by (simp add: Invoice_create_def Let_def sample_ids sample_rows_stored)
  qed
  ultimately show ?thesis
    by (simp add: next_createInvoice_def body_create_def)
qed

lemma next_update_example:
  "next_updateInvoice [invoice0] inv_1 user_1 body_update =
     (handleSuccess (InvoiceData invoice2) ''Invoice updated successfully'' 200, [invoice2])"
proof -
  have "dataValues (beforeUpdate (instance_set \<lparr>dataValues = invoice0, changed = {}\<rparr>
      \<lparr>a_id = None, a_invoiceNumber = None, a_invoiceDate = Some ''2024-02-01'',
       a_dueDate = None, a_logoUrl = None, a_sender = Some empty_address,
       a_recipient = Some empty_address, a_items = Some [item_1x50],
       a_currency = None, a_taxRate = None, a_subtotal = None, a_total = None,
       a_UserId = None\<rparr>)) = invoice2"
    using item_neq
    by (simp add: beforeUpdate_values instance_set_def set_key_def Let_def
          invoice0_def invoice1_def invoice2_def spec_subtotal_1x50 spec_total_50_10)
  then have "instance_update [invoice0] invoice0
      \<lparr>a_id = None, a_invoiceNumber = None, a_invoiceDate = Some ''2024-02-01'',
       a_dueDate = None, a_logoUrl = None, a_sender = Some empty_address,
       a_recipient = Some empty_address, a_items = Some [item_1x50],
       a_currency = None, a_taxRate = None, a_subtotal = None, a_total = None,
       a_UserId = None\<rparr> = (invoice2, [invoice2])"
    by (simp add: instance_update_result sample_rows_stored)
  then show ?thesis
    using body_update_ok
    by (simp add: next_updateInvoice_def findOne_example body_update_def)
qed

theorem missing_fields_rejected_witness:
  "(auth (request_of POST user_verified inv_1 empty_body) = Authenticated user_verified \<and>
    emailVerified user_verified \<and>
    req_method (request_of POST user_verified inv_1 empty_body) = POST \<and>
    missing_required_fields (req_body (request_of POST user_verified inv_1 empty_body)) \<and>
    index_handler env0 [] (request_of POST user_verified inv_1 empty_body) =
      (\<lparr>status = 400, success = False, message = Some ''Missing required fields'',
        data = NoData\<rparr>, [])) \<and>
   (req_method (request_of PUT user_verified inv_1 empty_body) = PUT \<and>
    query_id (request_of PUT user_verified inv_1 empty_body) = QString inv_1 \<and>
    Invoice_findOne [invoice0] inv_1 (u_id user_verified) = Inr (Some invoice0) \<and>
    id_handler [invoice0] (request_of PUT user_verified inv_1 empty_body) =
      (\<lparr>status = 400, success = False, message = Some ''Missing required fields'',
        data = NoData\<rparr>, [invoice0])) \<and>
   (snd (index_handler env0 [] (request_of POST user_verified inv_1 body_create)) = [invoice0] \<and>
    invoice0 \<notin> set [] \<and> items invoice0 \<noteq> []) \<and>
   (snd (id_handler [invoice0] (request_of PUT user_verified inv_1 body_update)) = [invoice2] \<and>
    invoice2 \<notin> set [invoice0] \<and> items invoice2 \<noteq> [])"
proof -
  have v: "emailVerified user_verified" "u_id user_verified = user_1"
    by (simp_all add: user_verified_def)
  have r: "auth (request_of m user_verified inv_1 b) = Authenticated user_verified"
    "req_method (request_of m user_verified inv_1 b) = m"
    "query_id (request_of m user_verified inv_1 b) = QString inv_1"
    "req_body (request_of m user_verified inv_1 b) = b" for m b
    by (simp_all add: request_of_def)
  have ne: "inv_1 \<noteq> []" by (simp add: sample_ids)
  have c: "snd (index_handler env0 [] (request_of POST user_verified inv_1 body_create)) = [invoice0]"
    by (simp add: index_handler_dispatch [OF r(1) v(1)] r v next_create_example)
  have u: "snd (id_handler [invoice0] (request_of PUT user_verified inv_1 body_update)) = [invoice2]"
    by (simp add: id_handler_dispatch [OF r(1) v(1) r(3) ne] r v next_update_example)
  have d: "invoice2 \<noteq> invoice0"
    by (simp add: invoice2_def invoice1_def invoice0_def)
  note t = missing_fields_rejected [where req = "request_of POST user_verified inv_1 empty_body"
      and u = user_verified and e = env0 and st = "[]"
      and req' = "request_of PUT user_verified inv_1 empty_body"
      and u' = user_verified and i = inv_1 and st' = "[invoice0]" and old = invoice0
      and ?e2.0 = env0 and ?st2.0 = "[]"
      and ?req2.0 = "request_of POST user_verified inv_1 body_create"
      and ?st3.0 = "[invoice0]"
      and ?req3.0 = "request_of PUT user_verified inv_1 body_update"]
  show ?thesis
    using t c u d v r ne missing_empty_body findOne_example
    by simp
qed

theorem missing_fields_unknown_invoice_counterexample:
  "req_method (request_of PUT user_verified inv_9 empty_body) = PUT \<and>
   missing_required_fields (req_body (request_of PUT user_verified inv_9 empty_body)) \<and>
   id_handler [invoice0] (request_of PUT user_verified inv_9 empty_body) =
     (\<lparr>status = 404, success = False, message = Some ''Invoice not found'', data = NoData\<rparr>,
      [invoice0])"
  by (simp add: id_handler_def request_of_def user_verified_def next_updateInvoice_def
        Invoice_findOne_def invoice0_def not_found_response_def missing_empty_body sample_ids)

section \<open>Invoices of other users\<close>

text \<open>
  C10. The claim: a GET, PUT or DELETE on \<open>/api/invoices/:id\<close> by an authenticated
  user, for an id under which that user owns no invoice, is answered with 404
  \<open>Invoice not found\<close>, and nothing is returned, changed or deleted. The handler checks
  the verified e-mail address before it looks the invoice up, so an authenticated user
  whose address is not verified gets 403 instead; and the lookup compares the id with
  a column of the type \<^verbatim>\<open>UUID\<close>, so an id that is not written in the syntax of that
  type makes the query fail, and the answer is 500. For a user who is authenticated
  and verified, and an id in that syntax, the claim holds, for the three Next.js
  handlers and for the read handler of the Express controller: \<open>c\<close> is the
  identifier that the id denotes, in the form in which the rows hold it.
\<close>

theorem not_found_for_requester:
  assumes "auth req = Authenticated u" and "emailVerified u"
    and "query_id req = QString i" and "uuid_canon i = Some c"
    and "req_method req = GET \<or> req_method req = PUT \<or> req_method req = DELETE"
    and "\<forall>r\<in>set st. id_inv r = c \<longrightarrow> UserId r \<noteq> u_id u"
  shows "id_handler st req =
           (\<lparr>status = 404, success = False, message = Some ''Invoice not found'',
             data = NoData\<rparr>, st) \<and>
         express_getInvoice st i (u_id u) =
           (\<lparr>status = 404, success = False, message = Some ''Invoice not found'',
             data = NoData\<rparr>, st)"
proof -
  have ne: "i \<noteq> []"
    using assms(4) by (auto simp add: uuid_canon_Nil)
  have n: "Invoice_findOne st i (u_id u) = Inr None"
    using assms(6) by (simp add: findOne_None_iff [OF assms(4)])
  have "id_handler st req = (not_found_response, st)"
    using assms(5) n
    by (auto simp add: id_handler_dispatch [OF assms(1-3) ne] next_getInvoice_def
          next_updateInvoice_def next_deleteInvoice_def)
  moreover have "express_getInvoice st i (u_id u) = (not_found_response, st)"
    using n by (simp add: express_getInvoice_def not_found_response_def)
  ultimately show ?thesis
    by (simp add: not_found_response_def)
qed

theorem not_found_for_requester_witness:
  "auth (request_of DELETE user_verified inv_1 empty_body) = Authenticated user_verified \<and>
   emailVerified user_verified \<and>
   query_id (request_of DELETE user_verified inv_1 empty_body) = QString inv_1 \<and>
   uuid_canon inv_1 = Some inv_1 \<and>
   req_method (request_of DELETE user_verified inv_1 empty_body) = DELETE \<and>
   id_inv invoice_of_other_user = inv_1 \<and>
   UserId invoice_of_other_user \<noteq> u_id user_verified \<and>
   id_handler [invoice_of_other_user] (request_of DELETE user_verified inv_1 empty_body) =
     (\<lparr>status = 404, success = False, message = Some ''Invoice not found'', data = NoData\<rparr>,
      [invoice_of_other_user]) \<and>
   express_getInvoice [invoice_of_other_user] inv_1 (u_id user_verified) =
     (\<lparr>status = 404, success = False, message = Some ''Invoice not found'', data = NoData\<rparr>,
      [invoice_of_other_user])"
proof -
  have f: "id_inv invoice_of_other_user = inv_1"
    "UserId invoice_of_other_user \<noteq> u_id user_verified"
    by (simp_all add: invoice_of_other_user_def invoice0_def user_verified_def sample_ids)
  have g: "auth (request_of DELETE user_verified inv_1 empty_body) = Authenticated user_verified"
    "emailVerified user_verified"
    "query_id (request_of DELETE user_verified inv_1 empty_body) = QString inv_1"
    "req_method (request_of DELETE user_verified inv_1 empty_body) = DELETE"
    by (simp_all add: request_of_def user_verified_def)
  have h: "\<forall>r\<in>set [invoice_of_other_user]. id_inv r = inv_1 \<longrightarrow> UserId r \<noteq> u_id user_verified"
    using f by simp
  have m: "req_method (request_of DELETE user_verified inv_1 empty_body) = GET \<or>
      req_method (request_of DELETE user_verified inv_1 empty_body) = PUT \<or>
      req_method (request_of DELETE user_verified inv_1 empty_body) = DELETE"
    using g(4) by simp
  from not_found_for_requester [OF g(1,2,3) sample_ids(1) m h]
  show ?thesis
    using f g sample_ids(1) by simp
qed

theorem not_found_counterexample:
  "(auth (request_of GET user_unverified inv_1 empty_body) = Authenticated user_unverified \<and>
    Invoice_findOne [] inv_1 (u_id user_unverified) = Inr None \<and>
    id_handler [] (request_of GET user_unverified inv_1 empty_body) =
      (\<lparr>status = 403, success = False, message = Some ''Email verification required'',
        data = NoData\<rparr>, [])) \<and>
   (auth (request_of GET user_verified ''inv-9'' empty_body) = Authenticated user_verified \<and>
    emailVerified user_verified \<and> uuid_canon ''inv-9'' = None \<and>
    status (fst (id_handler [] (request_of GET user_verified ''inv-9'' empty_body))) = 500 \<and>
    snd (id_handler [] (request_of GET user_verified ''inv-9'' empty_body)) = [] \<and>
    express_getInvoice [] ''inv-9'' (u_id user_verified) =
      (\<lparr>status = 500, success = False, message = Some ''Server error while fetching invoice'',
        data = NoData\<rparr>, []))"
  by (simp add: id_handler_def request_of_def user_unverified_def user_verified_def
        Invoice_findOne_def next_getInvoice_def express_getInvoice_def handleError_def
        sample_ids)

end
